theory Spec2Isabelle
  imports Complex_Main
begin

section \<open>JavaScript values\<close>

text \<open>
  The payload of a signal is an open map of untyped fields, so the handlers work on
  JavaScript values. Numbers are modelled as exact rationals plus \<open>NaN\<close> (no
  rounding and no infinities); objects are association lists in insertion order, a
  property read taking the first entry of its key (the keys of an object are pairwise
  different).
\<close>

datatype jsnum = NaN | Num rat

datatype jsval =
    JUndefined
  | JNull
  | JBool bool
  | JNum jsnum
  | JStr string
  | JArr "jsval list"
  | JObj "(string \<times> jsval) list"

type_synonym props = "(string \<times> jsval) list"

text \<open>
  The two conversions of the language that depend on number syntax are parameters:
  \<open>numberToString radix n\<close> is \<open>Number.prototype.toString\<close> and
  \<open>stringToNumber\<close> is the StringToNumber operation.
\<close>

record JSRuntime =
  numberToString :: "nat \<Rightarrow> jsnum \<Rightarrow> string"
  stringToNumber :: "string \<Rightarrow> jsnum"

text \<open>Truthiness, as tested by \<open>||\<close>, \<open>?:\<close> and \<open>if\<close>.\<close>

fun truthy :: "jsval \<Rightarrow> bool" where
  "truthy JUndefined = False"
| "truthy JNull = False"
| "truthy (JBool b) = b"
| "truthy (JNum NaN) = False"
| "truthy (JNum (Num q)) = (q \<noteq> 0)"
| "truthy (JStr s) = (s \<noteq> [])"
| "truthy (JArr xs) = True"
| "truthy (JObj ps) = True"

text \<open>\<open>a || b\<close> where \<open>b\<close> has no effect.\<close>

definition js_or :: "jsval \<Rightarrow> jsval \<Rightarrow> jsval" where
  "js_or a b = (if truthy a then a else b)"

fun join_comma :: "string list \<Rightarrow> string" where
  "join_comma [] = []"
| "join_comma [s] = s"
| "join_comma (s # t # ss) = s @ '','' @ join_comma (t # ss)"

text \<open>
  ToString, as applied by template literals. An array is joined with commas, its
  \<open>null\<close> and \<open>undefined\<close> elements printing as the empty string; a plain object
  prints as \<open>[object Object]\<close>.
\<close>

fun ToString :: "JSRuntime \<Rightarrow> jsval \<Rightarrow> string" where
  "ToString rt JUndefined = ''undefined''"
| "ToString rt JNull = ''null''"
| "ToString rt (JBool b) = (if b then ''true'' else ''false'')"
| "ToString rt (JNum n) = numberToString rt 10 n"
| "ToString rt (JStr s) = s"
| "ToString rt (JArr xs) =
     join_comma (map (\<lambda>v. if v = JUndefined \<or> v = JNull then [] else ToString rt v) xs)"
| "ToString rt (JObj ps) = ''[object Object]''"

text \<open>ToNumber, as applied by \<open>>\<close> against a number, by \<open>/\<close> and by \<open>*\<close>.\<close>

fun ToNumber :: "JSRuntime \<Rightarrow> jsval \<Rightarrow> jsnum" where
  "ToNumber rt JUndefined = NaN"
| "ToNumber rt JNull = Num 0"
| "ToNumber rt (JBool b) = Num (if b then 1 else 0)"
| "ToNumber rt (JNum n) = n"
| "ToNumber rt (JStr s) = stringToNumber rt s"
| "ToNumber rt (JArr xs) = stringToNumber rt (ToString rt (JArr xs))"
| "ToNumber rt (JObj ps) = stringToNumber rt (ToString rt (JObj ps))"

fun js_mul :: "jsnum \<Rightarrow> jsnum \<Rightarrow> jsnum" where
  "js_mul (Num a) (Num b) = Num (a * b)"
| "js_mul a b = NaN"

text \<open>Division by a non-zero constant (the only division of the handlers is by 10).\<close>

fun js_div :: "jsnum \<Rightarrow> rat \<Rightarrow> jsnum" where
  "js_div (Num a) d = Num (a / d)"
| "js_div NaN d = NaN"

text \<open>\<open>a > b\<close> on numbers: false when either side is \<open>NaN\<close>.\<close>

fun js_gt :: "jsnum \<Rightarrow> jsnum \<Rightarrow> bool" where
  "js_gt (Num a) (Num b) = (a > b)"
| "js_gt a b = False"

text \<open>\<open>Math.min(a, b)\<close>: \<open>NaN\<close> when either argument is.\<close>

fun Math_min :: "jsnum \<Rightarrow> jsnum \<Rightarrow> jsnum" where
  "Math_min (Num a) (Num b) = Num (min a b)"
| "Math_min a b = NaN"

text \<open>Property read \<open>obj.k\<close>: \<open>undefined\<close> when the object has no such key.\<close>

definition obj_get :: "props \<Rightarrow> string \<Rightarrow> jsval" where
  "obj_get ps k = (case map_of ps k of None \<Rightarrow> JUndefined | Some v \<Rightarrow> v)"

text \<open>The rest pattern \<open>{ sender, ...data }\<close>: every property but \<open>sender\<close>.\<close>

definition rest_without_sender :: "props \<Rightarrow> props" where
  "rest_without_sender ps = filter (\<lambda>kv. fst kv \<noteq> ''sender'') ps"

text \<open>
  Writing one property of an object literal: an existing key keeps its place and takes
  the new value, a new key goes last. The spread \<open>{ ...src }\<close> into an object writes
  the properties of \<open>src\<close> in order.
\<close>

fun obj_set :: "string \<Rightarrow> jsval \<Rightarrow> props \<Rightarrow> props" where
  "obj_set k v [] = [(k, v)]"
| "obj_set k v (p # ps) = (if fst p = k then (k, v) # ps else p # obj_set k v ps)"

definition obj_spread :: "props \<Rightarrow> props \<Rightarrow> props" where
  "obj_spread obj src = foldl (\<lambda>acc kv. obj_set (fst kv) (snd kv) acc) obj src"

section \<open>Signals, audit records and derived operations\<close>

text \<open>
  The decoded signal. Its \<open>timestamp\<close> is a number; \<open>NaN\<close> stands for a missing
  one, which makes \<open>timestamp * 1000\<close> falsy as \<open>undefined\<close> does.
\<close>

record Signal =
  signalType :: nat
  version :: nat
  timestamp :: jsnum
  payload :: props

record RemoteInfo =
  address :: string
  port :: nat

record AttentionEvent =
  timestamp :: jsnum
  server_name :: jsval
  event_type :: string
  target :: jsval
  "context" :: jsval

text \<open>An absent \<open>duration_ms\<close> is \<open>JUndefined\<close>.\<close>

record Operation =
  timestamp :: jsnum
  server_name :: jsval
  operation_type :: jsval
  operation_id :: jsval
  input_summary :: jsval
  outcome :: string
  quality_score :: jsval
  lessons :: jsval
  duration_ms :: jsval

text \<open>
  The constants of \<open>SignalTypes\<close> and the function \<open>getSignalName\<close> live in
  \<open>protocol.js\<close>, which is not part of the sources at hand: the table of numeric
  codes is a parameter of the model, and so is the naming function.
\<close>

record SignalTypes =
  HEARTBEAT :: nat
  DOCK_REQUEST :: nat
  DOCK_APPROVED :: nat
  UNDOCK :: nat
  SHUTDOWN :: nat
  FILE_DISCOVERED :: nat
  FILE_INDEXED :: nat
  FILE_MODIFIED :: nat
  FILE_DELETED :: nat
  SEARCH_STARTED :: nat
  SEARCH_COMPLETED :: nat
  SEARCH_RESULT :: nat
  BUILD_STARTED :: nat
  BUILD_COMPLETED :: nat
  BUILD_FAILED :: nat
  VERIFICATION_STARTED :: nat
  VERIFICATION_RESULT :: nat
  CLAIM_EXTRACTED :: nat
  VALIDATION_APPROVED :: nat
  VALIDATION_REJECTED :: nat
  HANDOFF_REQUEST :: nat
  HANDOFF_APPROVED :: nat
  HANDOFF_COMPLETED :: nat
  MODE_SWITCH :: nat
  ASTROSENTRY_EVENT :: nat
  ERROR :: nat

text \<open>
  The store behind \<open>getDatabase()\<close> is an external collaborator; the accessor
  hands out the one store and is taken to return normally. The two insert operations
  either return the new store or throw; the errors are the two kinds the store's
  contract names.
\<close>

datatype error = StorageError | DuplicateKeyError

record 's Database =
  insertAttentionEvent :: "AttentionEvent \<Rightarrow> 's \<Rightarrow> error + 's"
  insertOperation :: "Operation \<Rightarrow> 's \<Rightarrow> error + 's"

text \<open>
  Everything a handler reads from its surroundings: the code table, the naming
  function, the store's operations, the successive readings of \<open>Date.now()\<close>
  (the \<open>k\<close>-th reading is \<open>Date_now k\<close>), the runtime's number conversions and
  the \<open>serverId\<close> of the constructor.
\<close>

record 's HandlerEnv =
  signalTypes :: SignalTypes
  getSignalName :: "nat \<Rightarrow> string"
  getDatabase :: "'s Database"
  Date_now :: "nat \<Rightarrow> int"
  runtime :: JSRuntime
  serverId :: string

section \<open>Effects\<close>

text \<open>
  The observable calls of a handler, in the order they are made: a line on
  \<open>console.error\<close>, a call of one of the store's inserts (recorded whether or not
  it throws), a notification through \<open>context.emit\<close>, a reply through
  \<open>context.sendResponse\<close>. The console, the notifier and the responder are taken
  to return normally (the notifier is fire-and-forget, and a failing reply is the
  responder's concern); the inserts of the store are the calls that may throw.
\<close>

datatype logarg = LogVal jsval | LogErr error

datatype effect =
    ConsoleError "logarg list"
  | InsertAttentionEvent AttentionEvent
  | InsertOperation Operation
  | Emit string jsval
  | SendResponse string nat Signal

record 's world =
  store :: 's
  clock_reads :: nat
  effects :: "effect list"

definition console_error :: "logarg list \<Rightarrow> 's world \<Rightarrow> 's world" where
  "console_error args w = w\<lparr>effects := effects w @ [ConsoleError args]\<rparr>"

definition emit :: "string \<Rightarrow> jsval \<Rightarrow> 's world \<Rightarrow> 's world" where
  "emit event data w = w\<lparr>effects := effects w @ [Emit event data]\<rparr>"

definition sendResponse :: "string \<Rightarrow> nat \<Rightarrow> Signal \<Rightarrow> 's world \<Rightarrow> 's world" where
  "sendResponse host prt signal w = w\<lparr>effects := effects w @ [SendResponse host prt signal]\<rparr>"

text \<open>\<open>Date.now()\<close>: the next reading of the clock.\<close>

definition now :: "'s HandlerEnv \<Rightarrow> 's world \<Rightarrow> int \<times> 's world" where
  "now E w = (Date_now E (clock_reads w), w\<lparr>clock_reads := Suc (clock_reads w)\<rparr>)"

text \<open>\<open>db.insertAttentionEvent(event)\<close> and \<open>db.insertOperation(op)\<close>: \<open>Inl\<close> is a throw.\<close>

definition db_insertAttentionEvent ::
  "'s HandlerEnv \<Rightarrow> AttentionEvent \<Rightarrow> 's world \<Rightarrow> (error + unit) \<times> 's world" where
  "db_insertAttentionEvent E event w =
     (let w1 = w\<lparr>effects := effects w @ [InsertAttentionEvent event]\<rparr> in
      case insertAttentionEvent (getDatabase E) event (store w1) of
        Inl err \<Rightarrow> (Inl err, w1)
      | Inr s \<Rightarrow> (Inr (), w1\<lparr>store := s\<rparr>))"

definition db_insertOperation ::
  "'s HandlerEnv \<Rightarrow> Operation \<Rightarrow> 's world \<Rightarrow> (error + unit) \<times> 's world" where
  "db_insertOperation E op w =
     (let w1 = w\<lparr>effects := effects w @ [InsertOperation op]\<rparr> in
      case insertOperation (getDatabase E) op (store w1) of
        Inl err \<Rightarrow> (Inl err, w1)
      | Inr s \<Rightarrow> (Inr (), w1\<lparr>store := s\<rparr>))"

text \<open>\<open>signal.timestamp * 1000 || Date.now()\<close>: the clock is read only when the product is falsy.\<close>

definition signal_time :: "'s HandlerEnv \<Rightarrow> Signal \<Rightarrow> 's world \<Rightarrow> jsnum \<times> 's world" where
  "signal_time E signal w =
     (let t = js_mul (Signal.timestamp signal) (Num 1000) in
      if truthy (JNum t) then (t, w)
      else (let (n, w1) = now E w in (Num (of_int n), w1)))"

text \<open>\<open>v || `prefix${Date.now()}`\<close>: an identifier of the payload or a time-based one.\<close>

definition or_time_id ::
  "'s HandlerEnv \<Rightarrow> jsval \<Rightarrow> string \<Rightarrow> 's world \<Rightarrow> jsval \<times> 's world" where
  "or_time_id E v prefix w =
     (if truthy v then (v, w)
      else (let (n, w1) = now E w
            in (JStr (prefix @ numberToString (runtime E) 10 (Num (of_int n))), w1)))"

section \<open>The handlers of \<open>SignalHandlers\<close>\<close>

text \<open>
  A handler takes the world and returns the world after it, with \<open>Inr ()\<close> when
  it returns and \<open>Inl err\<close> when it throws \<open>err\<close>; the effects made before a throw
  stay in the world.
\<close>

text \<open>\<open>logAttentionEvent\<close>: the whole body is inside \<open>try\<close>, so it always returns.\<close>

definition logAttentionEvent ::
  "'s HandlerEnv \<Rightarrow> Signal \<Rightarrow> RemoteInfo \<Rightarrow> 's world \<Rightarrow> 's world" where
  "logAttentionEvent E signal rinfo w =
     (let sender = obj_get (payload signal) ''sender'';
          data = rest_without_sender (payload signal);
          (ts, w1) = signal_time E signal w;
          event = \<lparr>AttentionEvent.timestamp = ts,
                   server_name = sender,
                   event_type = ''signal'',
                   target = JStr (getSignalName E (signalType signal)),
                   context = JObj [(''signal_type'', JNum (Num (of_nat (signalType signal)))),
                                   (''data'', JObj data),
                                   (''source_address'', JStr (address rinfo)),
                                   (''source_port'', JNum (Num (of_nat (port rinfo))))]\<rparr>
      in case db_insertAttentionEvent E event w1 of
           (Inl err, w2) \<Rightarrow>
             console_error [LogVal (JStr ''[Handlers] Failed to log attention event:''), LogErr err] w2
         | (Inr u, w2) \<Rightarrow> w2)"

definition handleHeartbeat ::
  "'s HandlerEnv \<Rightarrow> Signal \<Rightarrow> RemoteInfo \<Rightarrow> 's world \<Rightarrow> (error + unit) \<times> 's world" where
  "handleHeartbeat E signal rinfo w =
     (let sender = obj_get (payload signal) ''sender'';
          data = rest_without_sender (payload signal)
      in (Inr (), emit ''server_heartbeat''
                    (JObj [(''server'', sender),
                           (''timestamp'', JNum (Signal.timestamp signal)),
                           (''data'', JObj data)]) w))"

definition handleDockRequest ::
  "'s HandlerEnv \<Rightarrow> Signal \<Rightarrow> RemoteInfo \<Rightarrow> 's world \<Rightarrow> (error + unit) \<times> 's world" where
  "handleDockRequest E signal rinfo w =
     (let (n, w1) = now E w;
          response = \<lparr>signalType = DOCK_APPROVED (signalTypes E),
                      version = 0x0100,
                      timestamp = Num (of_int (n div 1000)),
                      payload = [(''sender'', JStr (serverId E)),
                                 (''approved'', JBool True),
                                 (''message'', JStr ''Welcome to the consciousness mesh''),
                                 (''capabilities'',
                                    JArr [JStr ''awareness'', JStr ''pattern-detection'',
                                          JStr ''reflection''])]\<rparr>
      in (Inr (), sendResponse (address rinfo) (port rinfo) response w1))"

definition handleShutdown ::
  "'s HandlerEnv \<Rightarrow> Signal \<Rightarrow> RemoteInfo \<Rightarrow> 's world \<Rightarrow> (error + unit) \<times> 's world" where
  "handleShutdown E signal rinfo w =
     (let sender = obj_get (payload signal) ''sender'';
          w1 = console_error
                 [LogVal (JStr (''[Handlers] Server '' @ ToString (runtime E) sender
                                  @ '' is shutting down''))] w
      in (Inr (), emit ''server_shutdown''
                    (JObj [(''server'', sender),
                           (''timestamp'', JNum (Signal.timestamp signal))]) w1))"

definition handleFileEvent ::
  "'s HandlerEnv \<Rightarrow> Signal \<Rightarrow> RemoteInfo \<Rightarrow> 's world \<Rightarrow> (error + unit) \<times> 's world" where
  "handleFileEvent E signal rinfo w =
     (let sender = obj_get (payload signal) ''sender'';
          data = rest_without_sender (payload signal);
          (ts, w1) = signal_time E signal w;
          event = \<lparr>AttentionEvent.timestamp = ts,
                   server_name = sender,
                   event_type = ''file'',
                   target = js_or (js_or (obj_get data ''path'') (obj_get data ''file''))
                                  (JStr ''unknown''),
                   context = JObj data\<rparr>
      in case db_insertAttentionEvent E event w1 of
           (Inl err, w2) \<Rightarrow> (Inl err, w2)
         | (Inr u, w2) \<Rightarrow>
             (Inr (), emit ''file_event''
                        (JObj [(''type'', JStr (getSignalName E (signalType signal))),
                               (''server'', sender),
                               (''data'', JObj data)]) w2))"

definition handleSearchEvent ::
  "'s HandlerEnv \<Rightarrow> Signal \<Rightarrow> RemoteInfo \<Rightarrow> 's world \<Rightarrow> (error + unit) \<times> 's world" where
  "handleSearchEvent E signal rinfo w =
     (let sender = obj_get (payload signal) ''sender'';
          data = rest_without_sender (payload signal);
          started =
            (if signalType signal = SEARCH_STARTED (signalTypes E) then
               (let (ts, w1) = signal_time E signal w;
                    event = \<lparr>AttentionEvent.timestamp = ts,
                             server_name = sender,
                             event_type = ''query'',
                             target = js_or (js_or (obj_get data ''query'')
                                                   (obj_get data ''search_term''))
                                            (JStr ''unknown''),
                             context = JObj data\<rparr>
                in db_insertAttentionEvent E event w1)
             else (Inr (), w))
      in case started of
           (Inl err, w2) \<Rightarrow> (Inl err, w2)
         | (Inr u, w2) \<Rightarrow>
             (let w3 =
                (if signalType signal = SEARCH_COMPLETED (signalTypes E) then
                   (let (ts, wa) = signal_time E signal w2;
                        (oid, wb) = or_time_id E (obj_get data ''search_id'') ''search-'' wa;
                        op = \<lparr>Operation.timestamp = ts,
                              server_name = sender,
                              operation_type = JStr ''search'',
                              operation_id = oid,
                              input_summary = js_or (obj_get data ''query'') (JStr ''unknown''),
                              outcome =
                                (if js_gt (ToNumber (runtime E) (obj_get data ''results_count''))
                                          (Num 0)
                                 then ''success'' else ''partial''),
                              quality_score =
                                JNum (Math_min (Num 1)
                                        (js_div (ToNumber (runtime E)
                                                   (js_or (obj_get data ''results_count'')
                                                          (JNum (Num 0)))) 10)),
                              lessons = JObj [(''results_count'', obj_get data ''results_count'')],
                              duration_ms = obj_get data ''duration_ms''\<rparr>
                    in case db_insertOperation E op wb of
                         (Inl err, wc) \<Rightarrow> wc
                       | (Inr u, wc) \<Rightarrow> wc)
                 else w2)
              in (Inr (), emit ''search_event''
                            (JObj [(''type'', JStr (getSignalName E (signalType signal))),
                                   (''server'', sender),
                                   (''data'', JObj data)]) w3)))"

definition handleBuildEvent ::
  "'s HandlerEnv \<Rightarrow> Signal \<Rightarrow> RemoteInfo \<Rightarrow> 's world \<Rightarrow> (error + unit) \<times> 's world" where
  "handleBuildEvent E signal rinfo w =
     (let sender = obj_get (payload signal) ''sender'';
          data = rest_without_sender (payload signal);
          (buildId, w0) = or_time_id E (js_or (obj_get data ''build_id'')
                                              (obj_get data ''server_name'')) ''build-'' w;
          started =
            (if signalType signal = BUILD_STARTED (signalTypes E) then
               (let (ts, w1) = signal_time E signal w0;
                    event = \<lparr>AttentionEvent.timestamp = ts,
                             server_name = sender,
                             event_type = ''operation'',
                             target = buildId,
                             context = JObj (obj_spread
                                               [(''operation'', JStr ''build_started'')] data)\<rparr>
                in db_insertAttentionEvent E event w1)
             else (Inr (), w0))
      in case started of
           (Inl err, w2) \<Rightarrow> (Inl err, w2)
         | (Inr u, w2) \<Rightarrow>
             (let w3 =
                (if signalType signal = BUILD_COMPLETED (signalTypes E)
                    \<or> signalType signal = BUILD_FAILED (signalTypes E) then
                   (let outcome = (if signalType signal = BUILD_COMPLETED (signalTypes E)
                                   then ''success'' else ''failure'');
                        (ts, wa) = signal_time E signal w2;
                        op = \<lparr>Operation.timestamp = ts,
                              server_name = sender,
                              operation_type = JStr ''build'',
                              operation_id = buildId,
                              input_summary = js_or (js_or (obj_get data ''server_name'')
                                                           (obj_get data ''description''))
                                                    (JStr ''unknown''),
                              outcome = outcome,
                              quality_score =
                                JNum (Num (if outcome = ''success'' then 9 / 10 else 2 / 10)),
                              lessons = JObj data,
                              duration_ms = obj_get data ''duration_ms''\<rparr>;
                        wc = (case db_insertOperation E op wa of
                                (Inl err, wb) \<Rightarrow> wb
                              | (Inr u, wb) \<Rightarrow> wb)
                    in if outcome = ''failure'' then
                         emit ''lesson_learned''
                           (JObj [(''type'', JStr ''build_failure''),
                                  (''server'', sender),
                                  (''data'', JObj data)]) wc
                       else wc)
                 else w2)
              in (Inr (), emit ''build_event''
                            (JObj [(''type'', JStr (getSignalName E (signalType signal))),
                                   (''server'', sender),
                                   (''data'', JObj data)]) w3)))"

definition handleVerificationEvent ::
  "'s HandlerEnv \<Rightarrow> Signal \<Rightarrow> RemoteInfo \<Rightarrow> 's world \<Rightarrow> (error + unit) \<times> 's world" where
  "handleVerificationEvent E signal rinfo w =
     (let sender = obj_get (payload signal) ''sender'';
          data = rest_without_sender (payload signal);
          w3 =
            (if signalType signal = VERIFICATION_RESULT (signalTypes E) then
               (let (verifyId, w0) =
                      or_time_id E (obj_get data ''verification_id'') ''verify-'' w;
                    verdict = obj_get data ''verdict'';
                    outcome = (if verdict = JStr ''SUPPORTED'' then ''success''
                               else if verdict = JStr ''CONTRADICTED'' then ''failure''
                               else ''partial'');
                    (ts, wa) = signal_time E signal w0;
                    op = \<lparr>Operation.timestamp = ts,
                          server_name = sender,
                          operation_type = JStr ''verify'',
                          operation_id = verifyId,
                          input_summary = js_or (obj_get data ''claim'') (JStr ''unknown''),
                          outcome = outcome,
                          quality_score = js_or (obj_get data ''confidence'') (JNum (Num (5 / 10))),
                          lessons = JObj [(''verdict'', verdict),
                                          (''constraints'', obj_get data ''constraints''),
                                          (''sources'', obj_get data ''sources'')],
                          duration_ms = obj_get data ''duration_ms''\<rparr>
                in case db_insertOperation E op wa of
                     (Inl err, wb) \<Rightarrow> wb
                   | (Inr u, wb) \<Rightarrow> wb)
             else w)
      in (Inr (), emit ''verification_event''
                    (JObj [(''type'', JStr (getSignalName E (signalType signal))),
                           (''server'', sender),
                           (''data'', JObj data)]) w3))"

definition handleValidationEvent ::
  "'s HandlerEnv \<Rightarrow> Signal \<Rightarrow> RemoteInfo \<Rightarrow> 's world \<Rightarrow> (error + unit) \<times> 's world" where
  "handleValidationEvent E signal rinfo w =
     (let sender = obj_get (payload signal) ''sender'';
          data = rest_without_sender (payload signal);
          outcome = (if signalType signal = VALIDATION_APPROVED (signalTypes E)
                     then ''success'' else ''failure'');
          w1 = emit ''validation_event''
                 (JObj [(''type'', JStr (getSignalName E (signalType signal))),
                        (''outcome'', JStr outcome),
                        (''server'', sender),
                        (''data'', JObj data)]) w
      in (Inr (), if outcome = ''failure'' then
                    emit ''pattern_candidate''
                      (JObj [(''type'', JStr ''validation_failure''),
                             (''server'', sender),
                             (''reason'', obj_get data ''reason''),
                             (''data'', JObj data)]) w1
                  else w1))"

definition handleCoordinationEvent ::
  "'s HandlerEnv \<Rightarrow> Signal \<Rightarrow> RemoteInfo \<Rightarrow> 's world \<Rightarrow> (error + unit) \<times> 's world" where
  "handleCoordinationEvent E signal rinfo w =
     (let sender = obj_get (payload signal) ''sender'';
          data = rest_without_sender (payload signal);
          (ts, w1) = signal_time E signal w;
          event = \<lparr>AttentionEvent.timestamp = ts,
                   server_name = sender,
                   event_type = ''workflow'',
                   target = JStr (getSignalName E (signalType signal)),
                   context = JObj data\<rparr>
      in case db_insertAttentionEvent E event w1 of
           (Inl err, w2) \<Rightarrow> (Inl err, w2)
         | (Inr u, w2) \<Rightarrow>
             (Inr (), emit ''coordination_event''
                        (JObj [(''type'', JStr (getSignalName E (signalType signal))),
                               (''server'', sender),
                               (''data'', JObj data)]) w2))"

definition handleAstrosentryEvent ::
  "'s HandlerEnv \<Rightarrow> Signal \<Rightarrow> RemoteInfo \<Rightarrow> 's world \<Rightarrow> (error + unit) \<times> 's world" where
  "handleAstrosentryEvent E signal rinfo w =
     (let sender = obj_get (payload signal) ''sender'';
          srvId = obj_get (payload signal) ''serverId'';
          eventType = obj_get (payload signal) ''eventType'';
          outcome = obj_get (payload signal) ''outcome'';
          operation = obj_get (payload signal) ''operation'';
          metadata = obj_get (payload signal) ''metadata'';
          source = obj_get (payload signal) ''source'';
          (ts, w1) = signal_time E signal w;
          event = \<lparr>AttentionEvent.timestamp = ts,
                   server_name = js_or srvId sender,
                   event_type = ''operation'',
                   target = JStr (ToString (runtime E) eventType @ '':''
                                    @ ToString (runtime E) operation),
                   context = JObj [(''astrosentry_event_type'', eventType),
                                   (''outcome'', outcome),
                                   (''source'', source),
                                   (''metadata'', metadata)]\<rparr>
      in case db_insertAttentionEvent E event w1 of
           (Inl err, w2) \<Rightarrow> (Inl err, w2)
         | (Inr u, w2) \<Rightarrow>
             (let w3 =
                (if truthy outcome then
                   (let (ts2, wa) = signal_time E signal w2;
                        (n, wb) = now E wa;
                        op = \<lparr>Operation.timestamp = ts2,
                              server_name = js_or srvId sender,
                              operation_type = eventType,
                              operation_id =
                                JStr (ToString (runtime E) srvId @ ''-''
                                        @ ToString (runtime E) eventType @ ''-''
                                        @ numberToString (runtime E) 10 (Num (of_int n))),
                              input_summary = operation,
                              outcome = (if outcome = JStr ''success'' then ''success''
                                         else if outcome = JStr ''failure'' then ''failure''
                                         else ''partial''),
                              quality_score =
                                JNum (Num (if outcome = JStr ''success'' then 1
                                           else if outcome = JStr ''failure'' then 0
                                           else 5 / 10)),
                              lessons = metadata,
                              duration_ms = JUndefined\<rparr>
                    in case db_insertOperation E op wb of
                         (Inl err, wc) \<Rightarrow> wc
                       | (Inr u, wc) \<Rightarrow> wc)
                 else w2);
                  \<comment> \<open>the arrow of the source's message is written \<open>->\<close> here\<close>
                  w4 = console_error
                         [LogVal (JStr (''[Handlers] ASTROSENTRY_EVENT: ''
                                          @ ToString (runtime E) srvId @ ''/''
                                          @ ToString (runtime E) eventType @ '' -> ''
                                          @ ToString (runtime E) outcome @ '' (source: ''
                                          @ ToString (runtime E) source @ '')''))] w3;
                  w5 = emit ''astrosentry_event''
                         (JObj [(''serverId'', srvId),
                                (''eventType'', eventType),
                                (''outcome'', outcome),
                                (''operation'', operation),
                                (''metadata'', metadata),
                                (''source'', source)]) w4
              in (Inr (), if outcome = JStr ''failure'' then
                            emit ''pattern_candidate''
                              (JObj [(''type'', JStr ''astrosentry_failure''),
                                     (''server'', srvId),
                                     (''eventType'', eventType),
                                     (''operation'', operation),
                                     (''metadata'', metadata)]) w5
                          else w5)))"

definition handleError ::
  "'s HandlerEnv \<Rightarrow> Signal \<Rightarrow> RemoteInfo \<Rightarrow> 's world \<Rightarrow> (error + unit) \<times> 's world" where
  "handleError E signal rinfo w =
     (let sender = obj_get (payload signal) ''sender'';
          data = rest_without_sender (payload signal);
          w1 = console_error
                 [LogVal (JStr (''[Handlers] Error from '' @ ToString (runtime E) sender @ '':'')),
                  LogVal (JObj data)] w;
          w2 = emit ''error_received''
                 (JObj [(''server'', sender),
                        (''error'', JObj data),
                        (''timestamp'', JNum (Signal.timestamp signal))]) w1
      in (Inr (), emit ''pattern_candidate''
                    (JObj [(''type'', JStr ''error''),
                           (''server'', sender),
                           (''data'', JObj data)]) w2))"

definition handleUnknownSignal ::
  "'s HandlerEnv \<Rightarrow> Signal \<Rightarrow> RemoteInfo \<Rightarrow> 's world \<Rightarrow> (error + unit) \<times> 's world" where
  "handleUnknownSignal E signal rinfo w =
     (let sender = obj_get (payload signal) ''sender'';
          data = rest_without_sender (payload signal);
          w1 = console_error
                 [LogVal (JStr (''[Handlers] Unknown signal type 0x''
                                  @ numberToString (runtime E) 16 (Num (of_nat (signalType signal)))
                                  @ '' from '' @ ToString (runtime E) sender))] w
      in (Inr (), emit ''unknown_signal''
                    (JObj [(''type'', JNum (Num (of_nat (signalType signal)))),
                           (''server'', sender),
                           (''data'', JObj data)]) w1))"

text \<open>
  \<open>route\<close>: the line on the console, the universal audit record, then the \<open>switch\<close>
  on the signal type, its cases tried in the order of the source.
\<close>

definition route ::
  "'s HandlerEnv \<Rightarrow> Signal \<Rightarrow> RemoteInfo \<Rightarrow> 's world \<Rightarrow> (error + unit) \<times> 's world" where
  "route E signal rinfo w =
     (let T = signalTypes E;
          t = signalType signal;
          signalName = getSignalName E t;
          w1 = console_error
                 [LogVal (JStr (''[Handlers] Received '' @ signalName @ '' from ''
                                  @ ToString (runtime E) (obj_get (payload signal) ''sender'')
                                  @ '' ('' @ address rinfo @ '':''
                                  @ numberToString (runtime E) 10 (Num (of_nat (port rinfo)))
                                  @ '')''))] w;
          w2 = logAttentionEvent E signal rinfo w1
      in if t = HEARTBEAT T then handleHeartbeat E signal rinfo w2
         else if t = DOCK_REQUEST T then handleDockRequest E signal rinfo w2
         else if t = UNDOCK T \<or> t = SHUTDOWN T then handleShutdown E signal rinfo w2
         else if t = FILE_DISCOVERED T \<or> t = FILE_INDEXED T \<or> t = FILE_MODIFIED T
                 \<or> t = FILE_DELETED T then handleFileEvent E signal rinfo w2
         else if t = SEARCH_STARTED T \<or> t = SEARCH_COMPLETED T \<or> t = SEARCH_RESULT T
              then handleSearchEvent E signal rinfo w2
         else if t = BUILD_STARTED T \<or> t = BUILD_COMPLETED T \<or> t = BUILD_FAILED T
              then handleBuildEvent E signal rinfo w2
         else if t = VERIFICATION_STARTED T \<or> t = VERIFICATION_RESULT T \<or> t = CLAIM_EXTRACTED T
              then handleVerificationEvent E signal rinfo w2
         else if t = VALIDATION_APPROVED T \<or> t = VALIDATION_REJECTED T
              then handleValidationEvent E signal rinfo w2
         else if t = HANDOFF_REQUEST T \<or> t = HANDOFF_APPROVED T \<or> t = HANDOFF_COMPLETED T
                 \<or> t = MODE_SWITCH T then handleCoordinationEvent E signal rinfo w2
         else if t = ASTROSENTRY_EVENT T then handleAstrosentryEvent E signal rinfo w2
         else if t = ERROR T then handleError E signal rinfo w2
         else handleUnknownSignal E signal rinfo w2)"

section \<open>Observing one call of \<open>route\<close>\<close>

text \<open>The world in which \<open>route\<close> reaches its \<open>switch\<close>.\<close>

definition at_switch :: "'s HandlerEnv \<Rightarrow> Signal \<Rightarrow> RemoteInfo \<Rightarrow> 's world \<Rightarrow> 's world" where
  "at_switch E signal rinfo w =
     logAttentionEvent E signal rinfo
       (console_error
          [LogVal (JStr (''[Handlers] Received '' @ getSignalName E (signalType signal)
                           @ '' from ''
                           @ ToString (runtime E) (obj_get (payload signal) ''sender'')
                           @ '' ('' @ address rinfo @ '':''
                           @ numberToString (runtime E) 10 (Num (of_nat (port rinfo)))
                           @ '')''))] w)"

text \<open>The effects one call of \<open>route\<close> adds to the world, oldest first.\<close>

definition call_effects ::
  "'s HandlerEnv \<Rightarrow> Signal \<Rightarrow> RemoteInfo \<Rightarrow> 's world \<Rightarrow> effect list" where
  "call_effects E signal rinfo w =
     drop (length (effects w)) (effects (snd (route E signal rinfo w)))"

text \<open>The records passed to \<open>insertAttentionEvent\<close>, in order.\<close>

fun attention_calls :: "effect list \<Rightarrow> AttentionEvent list" where
  "attention_calls [] = []"
| "attention_calls (InsertAttentionEvent ev # es) = ev # attention_calls es"
| "attention_calls (e # es) = attention_calls es"

text \<open>The records passed to \<open>insertOperation\<close>, in order.\<close>

fun operation_calls :: "effect list \<Rightarrow> Operation list" where
  "operation_calls [] = []"
| "operation_calls (InsertOperation op # es) = op # operation_calls es"
| "operation_calls (e # es) = operation_calls es"

text \<open>The data of the notifications emitted under one name, in order.\<close>

fun emitted :: "string \<Rightarrow> effect list \<Rightarrow> jsval list" where
  "emitted name [] = []"
| "emitted name (Emit event data # es) =
     (if event = name then data # emitted name es else emitted name es)"
| "emitted name (e # es) = emitted name es"

text \<open>The replies sent, in order.\<close>

fun responses :: "effect list \<Rightarrow> (string \<times> nat \<times> Signal) list" where
  "responses [] = []"
| "responses (SendResponse host prt signal # es) = (host, prt, signal) # responses es"
| "responses (e # es) = responses es"

text \<open>
  What a handler, started in world \<open>w\<close> and ending with \<open>res\<close>, added to the audit
  log: records of the event types \<open>ks\<close>, in this order, none of them of event type
  \<open>signal\<close>.
\<close>

definition family_records ::
  "string list \<Rightarrow> 's world \<Rightarrow> (error + unit) \<times> 's world \<Rightarrow> bool" where
  "family_records ks w res =
     (let n = length (effects w); ext = drop n (effects (snd res))
      in take n (effects (snd res)) = effects w
         \<and> map event_type (attention_calls ext) = ks
         \<and> filter (\<lambda>ev. event_type ev = ''signal'') (attention_calls ext) = [])"

text \<open>The constants of the table, and the requirement that no two codes coincide.\<close>

definition all_types :: "SignalTypes \<Rightarrow> nat list" where
  "all_types T =
     [HEARTBEAT T, DOCK_REQUEST T, DOCK_APPROVED T, UNDOCK T, SHUTDOWN T,
      FILE_DISCOVERED T, FILE_INDEXED T, FILE_MODIFIED T, FILE_DELETED T,
      SEARCH_STARTED T, SEARCH_COMPLETED T, SEARCH_RESULT T,
      BUILD_STARTED T, BUILD_COMPLETED T, BUILD_FAILED T,
      VERIFICATION_STARTED T, VERIFICATION_RESULT T, CLAIM_EXTRACTED T,
      VALIDATION_APPROVED T, VALIDATION_REJECTED T,
      HANDOFF_REQUEST T, HANDOFF_APPROVED T, HANDOFF_COMPLETED T, MODE_SWITCH T,
      ASTROSENTRY_EVENT T, ERROR T]"

definition distinct_types :: "SignalTypes \<Rightarrow> bool" where
  "distinct_types T = distinct (all_types T)"

text \<open>The constants that label a \<open>case\<close> of the \<open>switch\<close> of \<open>route\<close>.\<close>

definition switch_cases :: "SignalTypes \<Rightarrow> nat list" where
  "switch_cases T =
     [HEARTBEAT T, DOCK_REQUEST T, UNDOCK T, SHUTDOWN T,
      FILE_DISCOVERED T, FILE_INDEXED T, FILE_MODIFIED T, FILE_DELETED T,
      SEARCH_STARTED T, SEARCH_COMPLETED T, SEARCH_RESULT T,
      BUILD_STARTED T, BUILD_COMPLETED T, BUILD_FAILED T,
      VERIFICATION_STARTED T, VERIFICATION_RESULT T, CLAIM_EXTRACTED T,
      VALIDATION_APPROVED T, VALIDATION_REJECTED T,
      HANDOFF_REQUEST T, HANDOFF_APPROVED T, HANDOFF_COMPLETED T, MODE_SWITCH T,
      ASTROSENTRY_EVENT T, ERROR T]"



section \<open>Stores\<close>

text \<open>
  Modelled from the spec: the backing store (\<open>database/schema.js\<close> is not part of the
  sources at hand). It keeps the audit log and the operations; \<open>insertAttentionEvent\<close>
  appends, and \<open>insertOperation\<close> fails with a DuplicateKeyError when the
  \<open>operation_id\<close> already exists, \<open>operation_id\<close> being a uniqueness key.
\<close>

record ideal_store =
  attention_events :: "AttentionEvent list"
  operations :: "Operation list"

definition ideal_insertAttentionEvent :: "AttentionEvent \<Rightarrow> ideal_store \<Rightarrow> error + ideal_store" where
  "ideal_insertAttentionEvent event s = Inr (s\<lparr>attention_events := attention_events s @ [event]\<rparr>)"

definition ideal_insertOperation :: "Operation \<Rightarrow> ideal_store \<Rightarrow> error + ideal_store" where
  "ideal_insertOperation op s =
     (if operation_id op \<in> set (map operation_id (operations s)) then Inl DuplicateKeyError
      else Inr (s\<lparr>operations := operations s @ [op]\<rparr>))"

definition ideal_db :: "ideal_store Database" where
  "ideal_db = \<lparr>insertAttentionEvent = ideal_insertAttentionEvent,
               insertOperation = ideal_insertOperation\<rparr>"

text \<open>The same store while it rejects every write to the audit log with a StorageError.\<close>

definition rejecting_db :: "ideal_store Database" where
  "rejecting_db = \<lparr>insertAttentionEvent = (\<lambda>event s. Inl StorageError),
                   insertOperation = ideal_insertOperation\<rparr>"

section \<open>Sample inputs\<close>

text \<open>
  A table of pairwise different codes, a naming function, a clock that advances by one
  millisecond at every reading, and a runtime to run the handlers on. The sample
  runtime prints the non-negative integers in the given radix (2 to 36), which are the
  numbers the samples print; it converts no string to a number.
\<close>

definition digit_char :: "nat \<Rightarrow> char" where
  "digit_char d = ''0123456789abcdefghijklmnopqrstuvwxyz'' ! d"

function nat_to_string :: "nat \<Rightarrow> nat \<Rightarrow> string" where
  "nat_to_string radix n =
     (if radix < 2 \<or> 36 < radix then []
      else if n < radix then [digit_char n]
      else nat_to_string radix (n div radix) @ [digit_char (n mod radix)])"
  by pat_completeness auto
termination
  by (relation "measure (\<lambda>(radix, n). n)") auto

declare nat_to_string.simps [simp del]

definition sample_types :: SignalTypes where
  "sample_types =
     \<lparr>HEARTBEAT = 1, DOCK_REQUEST = 2, DOCK_APPROVED = 3, UNDOCK = 4, SHUTDOWN = 5,
      FILE_DISCOVERED = 6, FILE_INDEXED = 7, FILE_MODIFIED = 8, FILE_DELETED = 9,
      SEARCH_STARTED = 10, SEARCH_COMPLETED = 11, SEARCH_RESULT = 12,
      BUILD_STARTED = 13, BUILD_COMPLETED = 14, BUILD_FAILED = 15,
      VERIFICATION_STARTED = 16, VERIFICATION_RESULT = 17, CLAIM_EXTRACTED = 18,
      VALIDATION_APPROVED = 19, VALIDATION_REJECTED = 20,
      HANDOFF_REQUEST = 21, HANDOFF_APPROVED = 22, HANDOFF_COMPLETED = 23, MODE_SWITCH = 24,
      ASTROSENTRY_EVENT = 25, ERROR = 26\<rparr>"

definition sample_runtime :: JSRuntime where
  "sample_runtime =
     \<lparr>numberToString =
        (\<lambda>radix n. case n of
           NaN \<Rightarrow> ''NaN''
         | Num q \<Rightarrow> if 0 \<le> q \<and> q = of_int \<lfloor>q\<rfloor> then nat_to_string radix (nat \<lfloor>q\<rfloor>) else []),
      stringToNumber = (\<lambda>s. NaN)\<rparr>"

definition sample_env :: "ideal_store Database \<Rightarrow> ideal_store HandlerEnv" where
  "sample_env db =
     \<lparr>signalTypes = sample_types,
      getSignalName = (\<lambda>t. ''SIGNAL''),
      getDatabase = db,
      Date_now = (\<lambda>k. 1700000000000 + int k),
      runtime = sample_runtime,
      serverId = ''consciousness-mcp''\<rparr>"

definition sample_rinfo :: RemoteInfo where
  "sample_rinfo = \<lparr>address = ''127.0.0.1'', port = 3010\<rparr>"

definition empty_world :: "ideal_store world" where
  "empty_world = \<lparr>store = \<lparr>attention_events = [], operations = []\<rparr>,
                  clock_reads = 0, effects = []\<rparr>"

text \<open>A signal of a given type, sent at second 1700000000 with the given payload.\<close>

definition sample_signal :: "nat \<Rightarrow> props \<Rightarrow> Signal" where
  "sample_signal t ps = \<lparr>signalType = t, version = 0x0100, timestamp = Num 1700000000, payload = ps\<rparr>"

definition file_modified_signal :: Signal where
  "file_modified_signal =
     sample_signal 8 [(''sender'', JStr ''scanner''), (''path'', JStr ''/tmp/a.txt'')]"



definition build_completed_signal :: Signal where
  "build_completed_signal =
     sample_signal 14 [(''sender'', JStr ''neurogenesis''), (''build_id'', JStr ''b-7'')]"

definition build_completed_no_id :: Signal where
  "build_completed_no_id = sample_signal 14 [(''sender'', JStr ''neurogenesis'')]"

definition build_failed_signal :: Signal where
  "build_failed_signal =
     sample_signal 15 [(''sender'', JStr ''neurogenesis''), (''build_id'', JStr ''b-8'')]"

definition contradicted_signal :: Signal where
  "contradicted_signal =
     sample_signal 17 [(''sender'', JStr ''verifier''), (''verdict'', JStr ''CONTRADICTED''),
                       (''confidence'', JNum (Num (8 / 10)))]"

definition zero_confidence_signal :: Signal where
  "zero_confidence_signal =
     sample_signal 17 [(''sender'', JStr ''verifier''), (''verdict'', JStr ''SUPPORTED''),
                       (''confidence'', JNum (Num 0))]"

definition dock_request_signal :: Signal where
  "dock_request_signal = sample_signal 2 [(''sender'', JStr ''peer'')]"

definition unrecognized_signal :: Signal where
  "unrecognized_signal = sample_signal 0x9999 [(''sender'', JStr ''peer'')]"

section \<open>Auxiliary facts\<close>

lemma attention_calls_append [simp]:
  "attention_calls (xs @ ys) = attention_calls xs @ attention_calls ys"
  by (induction xs rule: attention_calls.induct) simp_all

lemma operation_calls_append [simp]:
  "operation_calls (xs @ ys) = operation_calls xs @ operation_calls ys"
  by (induction xs rule: operation_calls.induct) simp_all

lemma emitted_append [simp]: "emitted n (xs @ ys) = emitted n xs @ emitted n ys"
  by (induction n xs rule: emitted.induct) simp_all

lemma responses_append [simp]: "responses (xs @ ys) = responses xs @ responses ys"
  by (induction xs rule: responses.induct) simp_all

lemma obj_get_rest: "k \<noteq> ''sender'' \<Longrightarrow> obj_get (rest_without_sender ps) k = obj_get ps k"
  by (induction ps) (auto simp: obj_get_def rest_without_sender_def)

lemma swallow_snd [simp]:
  "(case p of (Inl err, wc) \<Rightarrow> wc | (Inr u, wc) \<Rightarrow> wc) = snd p"
  by (cases p; cases "fst p") auto

lemma signal_time_effects [simp]: "effects (snd (signal_time E s w)) = effects w"
  by (simp add: signal_time_def now_def Let_def split_def)

lemma signal_time_store [simp]: "store (snd (signal_time E s w)) = store w"
  by (simp add: signal_time_def now_def Let_def split_def)

lemma or_time_id_effects [simp]: "effects (snd (or_time_id E v p w)) = effects w"
  by (simp add: or_time_id_def now_def Let_def split_def)

lemma or_time_id_store [simp]: "store (snd (or_time_id E v p w)) = store w"
  by (simp add: or_time_id_def now_def Let_def split_def)

lemma now_effects [simp]: "effects (snd (now E w)) = effects w"
  by (simp add: now_def)

lemma now_store [simp]: "store (snd (now E w)) = store w"
  by (simp add: now_def)

lemma db_insertOperation_effects [simp]:
  "effects (snd (db_insertOperation E op w)) = effects w @ [InsertOperation op]"
  by (simp add: db_insertOperation_def Let_def split: sum.splits)

lemma db_insertAttentionEvent_effects [simp]:
  "effects (snd (db_insertAttentionEvent E ev w)) = effects w @ [InsertAttentionEvent ev]"
  by (simp add: db_insertAttentionEvent_def Let_def split: sum.splits)

lemma emit_effects [simp]: "effects (emit n d w) = effects w @ [Emit n d]"
  by (simp add: emit_def)

lemma emit_store [simp]: "store (emit n d w) = store w"
  by (simp add: emit_def)

lemma console_error_effects [simp]:
  "effects (console_error args w) = effects w @ [ConsoleError args]"
  by (simp add: console_error_def)

lemma console_error_store [simp]: "store (console_error args w) = store w"
  by (simp add: console_error_def)

lemma sendResponse_effects [simp]:
  "effects (sendResponse h p sg w) = effects w @ [SendResponse h p sg]"
  by (simp add: sendResponse_def)

lemma sample_types_distinct: "distinct_types sample_types"
  by (simp add: distinct_types_def all_types_def sample_types_def)

lemma sample_env_types [simp]: "signalTypes (sample_env db) = sample_types"
  by (simp add: sample_env_def)

lemma route_at_switch:
  "route E s r w =
     (let T = signalTypes E; t = signalType s; w2 = at_switch E s r w
      in if t = HEARTBEAT T then handleHeartbeat E s r w2
         else if t = DOCK_REQUEST T then handleDockRequest E s r w2
         else if t = UNDOCK T \<or> t = SHUTDOWN T then handleShutdown E s r w2
         else if t = FILE_DISCOVERED T \<or> t = FILE_INDEXED T \<or> t = FILE_MODIFIED T
                 \<or> t = FILE_DELETED T then handleFileEvent E s r w2
         else if t = SEARCH_STARTED T \<or> t = SEARCH_COMPLETED T \<or> t = SEARCH_RESULT T
              then handleSearchEvent E s r w2
         else if t = BUILD_STARTED T \<or> t = BUILD_COMPLETED T \<or> t = BUILD_FAILED T
              then handleBuildEvent E s r w2
         else if t = VERIFICATION_STARTED T \<or> t = VERIFICATION_RESULT T \<or> t = CLAIM_EXTRACTED T
              then handleVerificationEvent E s r w2
         else if t = VALIDATION_APPROVED T \<or> t = VALIDATION_REJECTED T
              then handleValidationEvent E s r w2
         else if t = HANDOFF_REQUEST T \<or> t = HANDOFF_APPROVED T \<or> t = HANDOFF_COMPLETED T
                 \<or> t = MODE_SWITCH T then handleCoordinationEvent E s r w2
         else if t = ASTROSENTRY_EVENT T then handleAstrosentryEvent E s r w2
         else if t = ERROR T then handleError E s r w2
         else handleUnknownSignal E s r w2)"
  by (simp add: route_def at_switch_def Let_def)

lemma at_switch_effects:
  "\<exists>line ev rest. effects (at_switch E s r w)
        = effects w @ ConsoleError line # InsertAttentionEvent ev # rest
      \<and> event_type ev = ''signal'' \<and> target ev = JStr (getSignalName E (signalType s))
      \<and> attention_calls rest = [] \<and> operation_calls rest = [] \<and> (\<forall>n. emitted n rest = [])
      \<and> responses rest = []"
  by (simp add: at_switch_def logAttentionEvent_def Let_def split_def split: sum.splits)

lemma call_effects_split:
  assumes "route E s r w = res" "effects (snd res) = effects (at_switch E s r w) @ ext"
  shows "\<exists>line ev rest. call_effects E s r w
        = ConsoleError line # InsertAttentionEvent ev # rest @ ext
      \<and> event_type ev = ''signal'' \<and> target ev = JStr (getSignalName E (signalType s))
      \<and> attention_calls rest = [] \<and> operation_calls rest = [] \<and> (\<forall>n. emitted n rest = [])
      \<and> responses rest = []"
proof -
  obtain line ev rest where
    e: "effects (at_switch E s r w) = effects w @ ConsoleError line # InsertAttentionEvent ev # rest"
    and p: "event_type ev = ''signal''" "target ev = JStr (getSignalName E (signalType s))"
      "attention_calls rest = []" "operation_calls rest = []" "\<forall>n. emitted n rest = []"
      "responses rest = []"
    using at_switch_effects[of E s r w] by blast
  have "call_effects E s r w = ConsoleError line # InsertAttentionEvent ev # rest @ ext"
    using assms e by (simp add: call_effects_def)
  with p show ?thesis by blast
qed

lemma route_dock_request:
  assumes "distinct_types (signalTypes E)" "signalType s = DOCK_REQUEST (signalTypes E)"
  shows "route E s r w = handleDockRequest E s r (at_switch E s r w)"
  using assms
  by (simp add: route_at_switch distinct_types_def all_types_def Let_def
      eq_commute[of "DOCK_REQUEST (signalTypes E)"])


lemma route_build_completed:
  assumes "distinct_types (signalTypes E)" "signalType s = BUILD_COMPLETED (signalTypes E)"
  shows "route E s r w = handleBuildEvent E s r (at_switch E s r w)"
  using assms
  by (simp add: route_at_switch distinct_types_def all_types_def Let_def
      eq_commute[of "BUILD_COMPLETED (signalTypes E)"])

lemma route_build_failed:
  assumes "distinct_types (signalTypes E)" "signalType s = BUILD_FAILED (signalTypes E)"
  shows "route E s r w = handleBuildEvent E s r (at_switch E s r w)"
  using assms
  by (simp add: route_at_switch distinct_types_def all_types_def Let_def
      eq_commute[of "BUILD_FAILED (signalTypes E)"])

lemma route_verification_result:
  assumes "distinct_types (signalTypes E)" "signalType s = VERIFICATION_RESULT (signalTypes E)"
  shows "route E s r w = handleVerificationEvent E s r (at_switch E s r w)"
  using assms
  by (simp add: route_at_switch distinct_types_def all_types_def Let_def
      eq_commute[of "VERIFICATION_RESULT (signalTypes E)"])

lemma route_unrecognized:
  assumes "signalType s \<notin> set (switch_cases (signalTypes E))"
  shows "route E s r w = handleUnknownSignal E s r (at_switch E s r w)"
  using assms by (simp add: route_at_switch switch_cases_def Let_def)

section \<open>What each handler derives\<close>

lemma handleVerificationEvent_result:
  assumes "signalType s = VERIFICATION_RESULT (signalTypes E)"
  shows "\<exists>ext op. effects (snd (handleVerificationEvent E s r w)) = effects w @ ext
     \<and> operation_calls ext = [op]
     \<and> operation_type op = JStr ''verify''
     \<and> outcome op = (if obj_get (payload s) ''verdict'' = JStr ''SUPPORTED'' then ''success''
                      else if obj_get (payload s) ''verdict'' = JStr ''CONTRADICTED'' then ''failure''
                      else ''partial'')
     \<and> quality_score op = js_or (obj_get (payload s) ''confidence'') (JNum (Num (1 / 2)))"
  using assms
  by (simp add: handleVerificationEvent_def Let_def split_def obj_get_rest)

lemma verification_result_derives:
  assumes "distinct_types (signalTypes E)" "signalType s = VERIFICATION_RESULT (signalTypes E)"
  shows "\<exists>op. operation_calls (call_effects E s r w) = [op]
     \<and> operation_type op = JStr ''verify''
     \<and> outcome op = (if obj_get (payload s) ''verdict'' = JStr ''SUPPORTED'' then ''success''
                      else if obj_get (payload s) ''verdict'' = JStr ''CONTRADICTED'' then ''failure''
                      else ''partial'')
     \<and> quality_score op = js_or (obj_get (payload s) ''confidence'') (JNum (Num (1 / 2)))"
proof -
  obtain ext op where
    e: "effects (snd (handleVerificationEvent E s r (at_switch E s r w)))
          = effects (at_switch E s r w) @ ext"
    and o: "operation_calls ext = [op]" "operation_type op = JStr ''verify''"
      "outcome op = (if obj_get (payload s) ''verdict'' = JStr ''SUPPORTED'' then ''success''
                      else if obj_get (payload s) ''verdict'' = JStr ''CONTRADICTED'' then ''failure''
                      else ''partial'')"
      "quality_score op = js_or (obj_get (payload s) ''confidence'') (JNum (Num (1 / 2)))"
    using handleVerificationEvent_result[OF assms(2), of r "at_switch E s r w"] by blast
  obtain line ev rest where
    c: "call_effects E s r w = ConsoleError line # InsertAttentionEvent ev # rest @ ext"
    and r: "operation_calls rest = []"
    using call_effects_split[OF route_verification_result[OF assms] e] by blast
  have "operation_calls (call_effects E s r w) = [op]"
    using c r o(1) by simp
  with o show ?thesis by blast
qed





text \<open>
  C6. For every verification-result signal, \<open>route\<close> passes exactly one Operation to
  \<open>insertOperation\<close>. Its \<open>operation_type\<close> is \<open>verify\<close>; its outcome is
  \<open>success\<close> when \<open>payload.verdict\<close> is \<open>SUPPORTED\<close>, \<open>failure\<close> when it
  is \<open>CONTRADICTED\<close>, and \<open>partial\<close> otherwise; its \<open>quality_score\<close> is the
  payload's confidence (when truthy, as \<open>||\<close> tests it) or the default 0.5 (when
  absent). In particular verdict \<open>CONTRADICTED\<close> with confidence 0.8 gives outcome
  \<open>failure\<close> and score 0.8.
\<close>

theorem verification_result_operation:
  assumes "distinct_types (signalTypes E)" "signalType s = VERIFICATION_RESULT (signalTypes E)"
  shows "\<exists>op. operation_calls (call_effects E s r w) = [op]
     \<and> operation_type op = JStr ''verify''
     \<and> (obj_get (payload s) ''verdict'' = JStr ''SUPPORTED'' \<longrightarrow> outcome op = ''success'')
     \<and> (obj_get (payload s) ''verdict'' = JStr ''CONTRADICTED'' \<longrightarrow> outcome op = ''failure'')
     \<and> (obj_get (payload s) ''verdict'' \<noteq> JStr ''SUPPORTED''
          \<and> obj_get (payload s) ''verdict'' \<noteq> JStr ''CONTRADICTED'' \<longrightarrow> outcome op = ''partial'')
     \<and> (truthy (obj_get (payload s) ''confidence'')
          \<longrightarrow> quality_score op = obj_get (payload s) ''confidence'')
     \<and> (obj_get (payload s) ''confidence'' = JUndefined \<longrightarrow> quality_score op = JNum (Num (1 / 2)))
     \<and> (obj_get (payload s) ''verdict'' = JStr ''CONTRADICTED''
          \<and> obj_get (payload s) ''confidence'' = JNum (Num (8 / 10))
          \<longrightarrow> outcome op = ''failure'' \<and> quality_score op = JNum (Num (8 / 10)))"
proof -
  obtain op where o: "operation_calls (call_effects E s r w) = [op]"
      "operation_type op = JStr ''verify''"
      "outcome op = (if obj_get (payload s) ''verdict'' = JStr ''SUPPORTED'' then ''success''
                      else if obj_get (payload s) ''verdict'' = JStr ''CONTRADICTED'' then ''failure''
                      else ''partial'')"
      "quality_score op = js_or (obj_get (payload s) ''confidence'') (JNum (Num (1 / 2)))"
    using verification_result_derives[OF assms, of r w] by blast
  show ?thesis
    by (rule exI[of _ op]) (simp add: o js_or_def)
qed

theorem verification_result_operation_witness:
  "distinct_types (signalTypes (sample_env ideal_db))
   \<and> signalType contradicted_signal = VERIFICATION_RESULT (signalTypes (sample_env ideal_db))
   \<and> obj_get (payload contradicted_signal) ''verdict'' = JStr ''CONTRADICTED''
   \<and> obj_get (payload contradicted_signal) ''confidence'' = JNum (Num (8 / 10))
   \<and> truthy (obj_get (payload contradicted_signal) ''confidence'')
   \<and> (\<exists>op. operation_calls (call_effects (sample_env ideal_db) contradicted_signal
                               sample_rinfo empty_world) = [op]
          \<and> operation_type op = JStr ''verify''
          \<and> outcome op = ''failure'' \<and> quality_score op = JNum (Num (8 / 10)))"
proof -
  have d: "distinct_types (signalTypes (sample_env ideal_db))"
    by (simp add: sample_types_distinct)
  have t: "signalType contradicted_signal = VERIFICATION_RESULT (signalTypes (sample_env ideal_db))"
    by (simp add: contradicted_signal_def sample_signal_def sample_types_def)
  have v: "obj_get (payload contradicted_signal) ''verdict'' = JStr ''CONTRADICTED''"
    by (simp add: contradicted_signal_def sample_signal_def obj_get_def)
  have c: "obj_get (payload contradicted_signal) ''confidence'' = JNum (Num (8 / 10))"
    by (simp add: contradicted_signal_def sample_signal_def obj_get_def)
  have tc: "truthy (obj_get (payload contradicted_signal) ''confidence'')"
    by (simp add: c)
  from verification_result_operation[OF d t, of sample_rinfo empty_world] v c
  have "\<exists>op. operation_calls (call_effects (sample_env ideal_db) contradicted_signal
                               sample_rinfo empty_world) = [op]
          \<and> operation_type op = JStr ''verify''
          \<and> outcome op = ''failure'' \<and> quality_score op = JNum (Num (8 / 10))"
    by blast
  with d t v c tc show ?thesis by blast
qed

text \<open>
  C10. For every verification-result signal whose payload carries \<open>confidence = 0\<close>,
  and also when \<open>confidence\<close> is absent, the \<open>quality_score\<close> of the derived
  Operation is the default 0.5, not 0.
\<close>

theorem zero_confidence_takes_default:
  assumes "distinct_types (signalTypes E)" "signalType s = VERIFICATION_RESULT (signalTypes E)"
    and "obj_get (payload s) ''confidence'' = JNum (Num 0)
         \<or> obj_get (payload s) ''confidence'' = JUndefined"
  shows "\<exists>op. operation_calls (call_effects E s r w) = [op]
     \<and> quality_score op = JNum (Num (1 / 2)) \<and> quality_score op \<noteq> JNum (Num 0)"
proof -
  obtain op where o: "operation_calls (call_effects E s r w) = [op]"
      "quality_score op = js_or (obj_get (payload s) ''confidence'') (JNum (Num (1 / 2)))"
    using verification_result_derives[OF assms(1,2), of r w] by blast
  have "quality_score op = JNum (Num (1 / 2))"
    using assms(3) o(2) by (auto simp: js_or_def)
  with o(1) show ?thesis by simp
qed

theorem zero_confidence_takes_default_witness:
  "distinct_types (signalTypes (sample_env ideal_db))
   \<and> signalType zero_confidence_signal = VERIFICATION_RESULT (signalTypes (sample_env ideal_db))
   \<and> obj_get (payload zero_confidence_signal) ''confidence'' = JNum (Num 0)
   \<and> (\<exists>op. operation_calls (call_effects (sample_env ideal_db) zero_confidence_signal
                               sample_rinfo empty_world) = [op]
          \<and> quality_score op = JNum (Num (1 / 2)))"
proof -
  have d: "distinct_types (signalTypes (sample_env ideal_db))"
    by (simp add: sample_types_distinct)
  have t: "signalType zero_confidence_signal
             = VERIFICATION_RESULT (signalTypes (sample_env ideal_db))"
    by (simp add: zero_confidence_signal_def sample_signal_def sample_types_def)
  have c: "obj_get (payload zero_confidence_signal) ''confidence'' = JNum (Num 0)"
    by (simp add: zero_confidence_signal_def sample_signal_def obj_get_def)
  from zero_confidence_takes_default[OF d t, of sample_rinfo empty_world] c
  have "\<exists>op. operation_calls (call_effects (sample_env ideal_db) zero_confidence_signal
                               sample_rinfo empty_world) = [op]
          \<and> quality_score op = JNum (Num (1 / 2))"
    by blast
  with d t c show ?thesis by blast
qed

lemma handleBuildEvent_finished:
  assumes "signalType s = BUILD_COMPLETED (signalTypes E) \<or> signalType s = BUILD_FAILED (signalTypes E)"
    and "BUILD_STARTED (signalTypes E) \<noteq> signalType s"
  shows "\<exists>ext op. effects (snd (handleBuildEvent E s r w)) = effects w @ ext
     \<and> fst (handleBuildEvent E s r w) = Inr ()
     \<and> operation_calls ext = [op]
     \<and> attention_calls ext = []
     \<and> operation_type op = JStr ''build''
     \<and> outcome op = (if signalType s = BUILD_COMPLETED (signalTypes E) then ''success''
                      else ''failure'')
     \<and> quality_score op = JNum (Num (if signalType s = BUILD_COMPLETED (signalTypes E)
                                       then 9 / 10 else 2 / 10))
     \<and> emitted ''lesson_learned'' ext =
           (if signalType s = BUILD_COMPLETED (signalTypes E) then []
            else [JObj [(''type'', JStr ''build_failure''),
                        (''server'', obj_get (payload s) ''sender''),
                        (''data'', JObj (rest_without_sender (payload s)))]])"
  using assms
  by (auto simp: handleBuildEvent_def Let_def split_def)

lemma route_build_finished:
  assumes "distinct_types (signalTypes E)"
    and "signalType s = BUILD_COMPLETED (signalTypes E) \<or> signalType s = BUILD_FAILED (signalTypes E)"
  shows "route E s r w = handleBuildEvent E s r (at_switch E s r w)"
    and "BUILD_STARTED (signalTypes E) \<noteq> signalType s"
    and "signalType s = BUILD_FAILED (signalTypes E)
          \<longleftrightarrow> signalType s \<noteq> BUILD_COMPLETED (signalTypes E)"
proof -
  have n: "BUILD_STARTED (signalTypes E) \<noteq> BUILD_COMPLETED (signalTypes E)
      \<and> BUILD_STARTED (signalTypes E) \<noteq> BUILD_FAILED (signalTypes E)
      \<and> BUILD_COMPLETED (signalTypes E) \<noteq> BUILD_FAILED (signalTypes E)"
    using assms(1) by (simp add: distinct_types_def all_types_def)
  show "route E s r w = handleBuildEvent E s r (at_switch E s r w)"
    using assms(2) route_build_completed[OF assms(1), of s r w]
      route_build_failed[OF assms(1), of s r w] by blast
  show "BUILD_STARTED (signalTypes E) \<noteq> signalType s"
    using assms(2) n by auto
  show "signalType s = BUILD_FAILED (signalTypes E)
          \<longleftrightarrow> signalType s \<noteq> BUILD_COMPLETED (signalTypes E)"
    using assms(2) n by auto
qed

text \<open>
  C5. For every build-completed or build-failed signal, \<open>route\<close> passes exactly one
  Operation to \<open>insertOperation\<close>. Its \<open>operation_type\<close> is \<open>build\<close>, its outcome
  is \<open>success\<close> for build-completed and \<open>failure\<close> for build-failed, and its
  \<open>quality_score\<close> is 0.9 on success and 0.2 on failure. A build failure emits exactly
  one \<open>lesson_learned\<close> notification, of type \<open>build_failure\<close>; a build success
  emits none.
\<close>

theorem build_operation_and_lesson:
  assumes "distinct_types (signalTypes E)"
    and "signalType s = BUILD_COMPLETED (signalTypes E) \<or> signalType s = BUILD_FAILED (signalTypes E)"
  shows "\<exists>op. operation_calls (call_effects E s r w) = [op]
     \<and> operation_type op = JStr ''build''
     \<and> (signalType s = BUILD_COMPLETED (signalTypes E)
          \<longrightarrow> outcome op = ''success'' \<and> quality_score op = JNum (Num (9 / 10))
            \<and> emitted ''lesson_learned'' (call_effects E s r w) = [])
     \<and> (signalType s = BUILD_FAILED (signalTypes E)
          \<longrightarrow> outcome op = ''failure'' \<and> quality_score op = JNum (Num (2 / 10))
            \<and> emitted ''lesson_learned'' (call_effects E s r w)
                = [JObj [(''type'', JStr ''build_failure''),
                         (''server'', obj_get (payload s) ''sender''),
                         (''data'', JObj (rest_without_sender (payload s)))]])"
proof -
  note rb = route_build_finished[OF assms]
  obtain ext op where
    e: "effects (snd (handleBuildEvent E s r (at_switch E s r w)))
          = effects (at_switch E s r w) @ ext"
    and o: "operation_calls ext = [op]" "operation_type op = JStr ''build''"
      "outcome op = (if signalType s = BUILD_COMPLETED (signalTypes E) then ''success''
                      else ''failure'')"
      "quality_score op = JNum (Num (if signalType s = BUILD_COMPLETED (signalTypes E)
                                       then 9 / 10 else 2 / 10))"
      "emitted ''lesson_learned'' ext =
           (if signalType s = BUILD_COMPLETED (signalTypes E) then []
            else [JObj [(''type'', JStr ''build_failure''),
                        (''server'', obj_get (payload s) ''sender''),
                        (''data'', JObj (rest_without_sender (payload s)))]])"
    using handleBuildEvent_finished[OF assms(2) rb(2), of r "at_switch E s r w"] by blast
  obtain line ev rest where
    c: "call_effects E s r w = ConsoleError line # InsertAttentionEvent ev # rest @ ext"
    and r: "operation_calls rest = []" "\<forall>n. emitted n rest = []"
    using call_effects_split[OF rb(1) e] by blast
  have oc: "operation_calls (call_effects E s r w) = [op]"
    using c r o(1) by simp
  have em: "emitted ''lesson_learned'' (call_effects E s r w) = emitted ''lesson_learned'' ext"
    using c r by simp
  show ?thesis
    by (rule exI[of _ op]) (use rb(3) in \<open>simp add: oc em o\<close>)
qed

theorem build_operation_and_lesson_witness:
  "distinct_types (signalTypes (sample_env ideal_db))
   \<and> signalType build_failed_signal = BUILD_FAILED (signalTypes (sample_env ideal_db))
   \<and> (\<exists>op. operation_calls (call_effects (sample_env ideal_db) build_failed_signal
                               sample_rinfo empty_world) = [op]
          \<and> operation_type op = JStr ''build''
          \<and> outcome op = ''failure'' \<and> quality_score op = JNum (Num (2 / 10))
          \<and> length (emitted ''lesson_learned''
                       (call_effects (sample_env ideal_db) build_failed_signal
                          sample_rinfo empty_world)) = 1)
   \<and> signalType build_completed_signal = BUILD_COMPLETED (signalTypes (sample_env ideal_db))
   \<and> (\<exists>op. operation_calls (call_effects (sample_env ideal_db) build_completed_signal
                               sample_rinfo empty_world) = [op]
          \<and> operation_type op = JStr ''build''
          \<and> outcome op = ''success'' \<and> quality_score op = JNum (Num (9 / 10))
          \<and> emitted ''lesson_learned''
                (call_effects (sample_env ideal_db) build_completed_signal
                   sample_rinfo empty_world) = [])"
proof -
  have d: "distinct_types (signalTypes (sample_env ideal_db))"
    by (simp add: sample_types_distinct)
  have t: "signalType build_failed_signal = BUILD_FAILED (signalTypes (sample_env ideal_db))"
    by (simp add: build_failed_signal_def sample_signal_def sample_types_def)
  from build_operation_and_lesson[OF d disjI2[OF t], of sample_rinfo empty_world] t
  have a: "\<exists>op. operation_calls (call_effects (sample_env ideal_db) build_failed_signal
                               sample_rinfo empty_world) = [op]
          \<and> operation_type op = JStr ''build''
          \<and> outcome op = ''failure'' \<and> quality_score op = JNum (Num (2 / 10))
          \<and> length (emitted ''lesson_learned''
                       (call_effects (sample_env ideal_db) build_failed_signal
                          sample_rinfo empty_world)) = 1"
    by fastforce
  have tc: "signalType build_completed_signal
              = BUILD_COMPLETED (signalTypes (sample_env ideal_db))"
    by (simp add: build_completed_signal_def sample_signal_def sample_types_def)
  from build_operation_and_lesson[OF d disjI1[OF tc], of sample_rinfo empty_world] tc
  have b: "\<exists>op. operation_calls (call_effects (sample_env ideal_db) build_completed_signal
                               sample_rinfo empty_world) = [op]
          \<and> operation_type op = JStr ''build''
          \<and> outcome op = ''success'' \<and> quality_score op = JNum (Num (9 / 10))
          \<and> emitted ''lesson_learned''
                (call_effects (sample_env ideal_db) build_completed_signal
                   sample_rinfo empty_world) = []"
    by fastforce
  from d t a tc b show ?thesis by blast
qed

lemma handleDockRequest_reply:
  "fst (handleDockRequest E s r w) = Inr ()
   \<and> effects (snd (handleDockRequest E s r w)) = effects w @
       [SendResponse (address r) (port r)
          \<lparr>signalType = DOCK_APPROVED (signalTypes E),
           version = 0x0100,
           timestamp = Num (of_int (Date_now E (clock_reads w) div 1000)),
           payload = [(''sender'', JStr (serverId E)),
                      (''approved'', JBool True),
                      (''message'', JStr ''Welcome to the consciousness mesh''),
                      (''capabilities'',
                         JArr [JStr ''awareness'', JStr ''pattern-detection'',
                               JStr ''reflection''])]\<rparr>]"
  by (simp add: handleDockRequest_def now_def Let_def split_def)

text \<open>
  C8. For every dock-request signal, from any sender, \<open>route\<close> returns normally and
  sends exactly one reply, to the address and port the request came from: a signal of
  type DOCK_APPROVED, version 0x0100, stamped with the clock in seconds, whose payload
  carries the observer's own id as sender, \<open>approved = true\<close>, the welcome message
  and the capability list awareness, pattern-detection, reflection.
\<close>

theorem dock_request_always_approved:
  assumes "distinct_types (signalTypes E)" "signalType s = DOCK_REQUEST (signalTypes E)"
  shows "fst (route E s r w) = Inr ()
     \<and> (\<exists>k. responses (call_effects E s r w) =
           [(address r, port r,
             \<lparr>signalType = DOCK_APPROVED (signalTypes E),
              version = 0x0100,
              timestamp = Num (of_int (Date_now E k div 1000)),
              payload = [(''sender'', JStr (serverId E)),
                         (''approved'', JBool True),
                         (''message'', JStr ''Welcome to the consciousness mesh''),
                         (''capabilities'',
                            JArr [JStr ''awareness'', JStr ''pattern-detection'',
                                  JStr ''reflection''])]\<rparr>)])"
proof -
  note rd = route_dock_request[OF assms, of r w]
  note h = handleDockRequest_reply[of E s r "at_switch E s r w"]
  obtain line ev rest where
    c: "call_effects E s r w = ConsoleError line # InsertAttentionEvent ev # rest @
       [SendResponse (address r) (port r)
          \<lparr>signalType = DOCK_APPROVED (signalTypes E),
           version = 0x0100,
           timestamp = Num (of_int (Date_now E (clock_reads (at_switch E s r w)) div 1000)),
           payload = [(''sender'', JStr (serverId E)),
                      (''approved'', JBool True),
                      (''message'', JStr ''Welcome to the consciousness mesh''),
                      (''capabilities'',
                         JArr [JStr ''awareness'', JStr ''pattern-detection'',
                               JStr ''reflection''])]\<rparr>]"
    and r: "responses rest = []"
    using call_effects_split[OF rd conjunct2[OF h]] by blast
  have "fst (route E s r w) = Inr ()"
    using rd h by simp
  moreover have "responses (call_effects E s r w) =
           [(address r, port r,
             \<lparr>signalType = DOCK_APPROVED (signalTypes E),
              version = 0x0100,
              timestamp = Num (of_int (Date_now E (clock_reads (at_switch E s r w)) div 1000)),
              payload = [(''sender'', JStr (serverId E)),
                         (''approved'', JBool True),
                         (''message'', JStr ''Welcome to the consciousness mesh''),
                         (''capabilities'',
                            JArr [JStr ''awareness'', JStr ''pattern-detection'',
                                  JStr ''reflection''])]\<rparr>)]"
    using c r by simp
  ultimately show ?thesis by blast
qed

theorem dock_request_always_approved_witness:
  "distinct_types (signalTypes (sample_env ideal_db))
   \<and> signalType dock_request_signal = DOCK_REQUEST (signalTypes (sample_env ideal_db))
   \<and> fst (route (sample_env ideal_db) dock_request_signal sample_rinfo empty_world) = Inr ()
   \<and> length (responses (call_effects (sample_env ideal_db) dock_request_signal
                           sample_rinfo empty_world)) = 1"
proof -
  have d: "distinct_types (signalTypes (sample_env ideal_db))"
    by (simp add: sample_types_distinct)
  have t: "signalType dock_request_signal = DOCK_REQUEST (signalTypes (sample_env ideal_db))"
    by (simp add: dock_request_signal_def sample_signal_def sample_types_def)
  from dock_request_always_approved[OF d t, of sample_rinfo empty_world]
  have "fst (route (sample_env ideal_db) dock_request_signal sample_rinfo empty_world) = Inr ()
   \<and> length (responses (call_effects (sample_env ideal_db) dock_request_signal
                           sample_rinfo empty_world)) = 1"
    by fastforce
  with d t show ?thesis by blast
qed

lemma handleUnknownSignal_effects:
  "fst (handleUnknownSignal E s r w) = Inr ()
   \<and> (\<exists>line. effects (snd (handleUnknownSignal E s r w)) = effects w @
         [ConsoleError line,
          Emit ''unknown_signal''
            (JObj [(''type'', JNum (Num (of_nat (signalType s)))),
                   (''server'', obj_get (payload s) ''sender''),
                   (''data'', JObj (rest_without_sender (payload s)))])])"
  by (simp add: handleUnknownSignal_def Let_def)

text \<open>
  C9. For every signal whose type is none of the types the \<open>switch\<close> of \<open>route\<close>
  names (0x9999, say), \<open>route\<close> returns normally, makes exactly one
  \<open>insertAttentionEvent\<close> call, emits exactly one \<open>unknown_signal\<close> notification,
  which carries the raw numeric type, and passes no Operation to the store.
\<close>

theorem unrecognized_signal_type:
  assumes "signalType s \<notin> set (switch_cases (signalTypes E))"
  shows "fst (route E s r w) = Inr ()
     \<and> length (attention_calls (call_effects E s r w)) = 1
     \<and> emitted ''unknown_signal'' (call_effects E s r w) =
         [JObj [(''type'', JNum (Num (of_nat (signalType s)))),
                (''server'', obj_get (payload s) ''sender''),
                (''data'', JObj (rest_without_sender (payload s)))]]
     \<and> operation_calls (call_effects E s r w) = []"
proof -
  note ru = route_unrecognized[OF assms, of r w]
  note h = handleUnknownSignal_effects[of E s r "at_switch E s r w"]
  obtain l2 where e: "effects (snd (handleUnknownSignal E s r (at_switch E s r w)))
       = effects (at_switch E s r w) @
         [ConsoleError l2,
          Emit ''unknown_signal''
            (JObj [(''type'', JNum (Num (of_nat (signalType s)))),
                   (''server'', obj_get (payload s) ''sender''),
                   (''data'', JObj (rest_without_sender (payload s)))])]"
    using h by blast
  obtain line ev rest where
    c: "call_effects E s r w = ConsoleError line # InsertAttentionEvent ev # rest @
         [ConsoleError l2,
          Emit ''unknown_signal''
            (JObj [(''type'', JNum (Num (of_nat (signalType s)))),
                   (''server'', obj_get (payload s) ''sender''),
                   (''data'', JObj (rest_without_sender (payload s)))])]"
    and r: "attention_calls rest = []" "operation_calls rest = []" "\<forall>n. emitted n rest = []"
    using call_effects_split[OF ru e] by blast
  have "fst (route E s r w) = Inr ()"
    using ru h by simp
  then show ?thesis
    using c r by simp
qed

theorem unrecognized_signal_type_witness:
  "signalType unrecognized_signal = 0x9999
   \<and> signalType unrecognized_signal \<notin> set (switch_cases (signalTypes (sample_env ideal_db)))
   \<and> fst (route (sample_env ideal_db) unrecognized_signal sample_rinfo empty_world) = Inr ()
   \<and> length (attention_calls (call_effects (sample_env ideal_db) unrecognized_signal
                                 sample_rinfo empty_world)) = 1
   \<and> emitted ''unknown_signal'' (call_effects (sample_env ideal_db) unrecognized_signal
                                    sample_rinfo empty_world) =
         [JObj [(''type'', JNum (Num 0x9999)),
                (''server'', JStr ''peer''),
                (''data'', JObj [])]]
   \<and> operation_calls (call_effects (sample_env ideal_db) unrecognized_signal
                         sample_rinfo empty_world) = []"
proof -
  have t: "signalType unrecognized_signal = 0x9999"
    by (simp add: unrecognized_signal_def sample_signal_def)
  have n: "signalType unrecognized_signal
             \<notin> set (switch_cases (signalTypes (sample_env ideal_db)))"
    by (simp add: t switch_cases_def sample_types_def)
  have p: "obj_get (payload unrecognized_signal) ''sender'' = JStr ''peer''"
    "rest_without_sender (payload unrecognized_signal) = []"
    by (simp_all add: unrecognized_signal_def sample_signal_def obj_get_def
        rest_without_sender_def)
  from unrecognized_signal_type[OF n, of sample_rinfo empty_world] t n p
  show ?thesis by simp
qed

section \<open>Retransmission against the uniqueness-checked store\<close>

lemma at_switch_operations:
  assumes "getDatabase E = ideal_db"
  shows "operations (store (at_switch E s r w)) = operations (store w)"
  using assms
  by (simp add: at_switch_def logAttentionEvent_def db_insertAttentionEvent_def ideal_db_def
      ideal_insertAttentionEvent_def Let_def split_def)

lemma db_insertOperation_ideal:
  assumes "getDatabase E = ideal_db"
  shows "operations (store (snd (db_insertOperation E op w))) =
           (if operation_id op \<in> operation_id ` set (operations (store w))
            then operations (store w) else operations (store w) @ [op])"
  using assms
  by (simp add: db_insertOperation_def ideal_db_def ideal_insertOperation_def Let_def)

lemma handleBuildEvent_completed_store:
  assumes "getDatabase E = ideal_db"
    and "signalType s = BUILD_COMPLETED (signalTypes E)"
    and "BUILD_STARTED (signalTypes E) \<noteq> BUILD_COMPLETED (signalTypes E)"
  shows "\<exists>ext op. effects (snd (handleBuildEvent E s r w)) = effects w @ ext
     \<and> fst (handleBuildEvent E s r w) = Inr ()
     \<and> operation_calls ext = [op]
     \<and> operation_id op =
           fst (or_time_id E (js_or (obj_get (payload s) ''build_id'')
                                    (obj_get (payload s) ''server_name'')) ''build-'' w)
     \<and> operations (store (snd (handleBuildEvent E s r w))) =
           (if operation_id op \<in> operation_id ` set (operations (store w))
            then operations (store w) else operations (store w) @ [op])"
  using assms(2,3)
  by (simp add: handleBuildEvent_def Let_def split_def obj_get_rest
      db_insertOperation_ideal[OF assms(1)])

lemma route_build_completed_store:
  assumes "distinct_types (signalTypes E)" "getDatabase E = ideal_db"
    and "signalType s = BUILD_COMPLETED (signalTypes E)"
  shows "\<exists>op. operation_calls (call_effects E s r w) = [op]
     \<and> fst (route E s r w) = Inr ()
     \<and> (truthy (js_or (obj_get (payload s) ''build_id'') (obj_get (payload s) ''server_name''))
          \<longrightarrow> operation_id op = js_or (obj_get (payload s) ''build_id'')
                                       (obj_get (payload s) ''server_name''))
     \<and> (\<not> truthy (js_or (obj_get (payload s) ''build_id'')
                          (obj_get (payload s) ''server_name''))
          \<longrightarrow> operation_id op =
                JStr (''build-'' @ numberToString (runtime E) 10
                        (Num (of_int (Date_now E (clock_reads (at_switch E s r w)))))))
     \<and> operations (store (snd (route E s r w))) =
           (if operation_id op \<in> operation_id ` set (operations (store w))
            then operations (store w) else operations (store w) @ [op])"
proof -
  have n: "BUILD_STARTED (signalTypes E) \<noteq> BUILD_COMPLETED (signalTypes E)"
    using assms(1) by (simp add: distinct_types_def all_types_def)
  note rb = route_build_completed[OF assms(1,3), of r w]
  obtain ext op where
    e: "effects (snd (handleBuildEvent E s r (at_switch E s r w)))
          = effects (at_switch E s r w) @ ext"
    and f: "fst (handleBuildEvent E s r (at_switch E s r w)) = Inr ()"
    and o: "operation_calls ext = [op]"
    and i: "operation_id op =
           fst (or_time_id E (js_or (obj_get (payload s) ''build_id'')
                                    (obj_get (payload s) ''server_name'')) ''build-''
                  (at_switch E s r w))"
    and st: "operations (store (snd (handleBuildEvent E s r (at_switch E s r w)))) =
           (if operation_id op \<in> operation_id ` set (operations (store (at_switch E s r w)))
            then operations (store (at_switch E s r w))
            else operations (store (at_switch E s r w)) @ [op])"
    using handleBuildEvent_completed_store[OF assms(2,3) n, of r "at_switch E s r w"] by blast
  obtain line ev rest where
    c: "call_effects E s r w = ConsoleError line # InsertAttentionEvent ev # rest @ ext"
    and r: "operation_calls rest = []"
    using call_effects_split[OF rb e] by blast
  have "operation_calls (call_effects E s r w) = [op]"
    using c r o by simp
  moreover have "fst (route E s r w) = Inr ()"
    using rb f by simp
  moreover have "truthy (js_or (obj_get (payload s) ''build_id'')
                               (obj_get (payload s) ''server_name''))
          \<longrightarrow> operation_id op = js_or (obj_get (payload s) ''build_id'')
                                       (obj_get (payload s) ''server_name'')"
    using i by (simp add: or_time_id_def)
  moreover have "\<not> truthy (js_or (obj_get (payload s) ''build_id'')
                                 (obj_get (payload s) ''server_name''))
          \<longrightarrow> operation_id op =
                JStr (''build-'' @ numberToString (runtime E) 10
                        (Num (of_int (Date_now E (clock_reads (at_switch E s r w))))))"
    using i by (simp add: or_time_id_def now_def)
  moreover have "operations (store (snd (route E s r w))) =
           (if operation_id op \<in> operation_id ` set (operations (store w))
            then operations (store w) else operations (store w) @ [op])"
    using st by (simp add: rb at_switch_operations[OF assms(2)])
  ultimately show ?thesis by blast
qed

lemma emit_clock [simp]: "clock_reads (emit n d w) = clock_reads w"
  by (simp add: emit_def)

lemma console_error_clock [simp]: "clock_reads (console_error args w) = clock_reads w"
  by (simp add: console_error_def)

lemma db_insertOperation_clock [simp]:
  "clock_reads (snd (db_insertOperation E op w)) = clock_reads w"
  by (simp add: db_insertOperation_def Let_def split: sum.splits)

lemma db_insertAttentionEvent_clock [simp]:
  "clock_reads (snd (db_insertAttentionEvent E ev w)) = clock_reads w"
  by (simp add: db_insertAttentionEvent_def Let_def split: sum.splits)

lemma signal_time_clock:
  "truthy (JNum (js_mul (Signal.timestamp s) (Num 1000)))
    \<Longrightarrow> clock_reads (snd (signal_time E s w)) = clock_reads w"
  by (simp add: signal_time_def Let_def)

lemma or_time_id_clock:
  "\<not> truthy v \<Longrightarrow> clock_reads (snd (or_time_id E v p w)) = Suc (clock_reads w)"
  by (simp add: or_time_id_def now_def)

lemma at_switch_clock:
  assumes "truthy (JNum (js_mul (Signal.timestamp s) (Num 1000)))"
  shows "clock_reads (at_switch E s r w) = clock_reads w"
  by (simp add: at_switch_def logAttentionEvent_def Let_def split_def
      signal_time_clock[OF assms] split: sum.splits)

lemma handleBuildEvent_completed_clock:
  assumes "signalType s = BUILD_COMPLETED (signalTypes E)"
    and "BUILD_STARTED (signalTypes E) \<noteq> BUILD_COMPLETED (signalTypes E)"
    and "\<not> truthy (js_or (obj_get (payload s) ''build_id'')
                          (obj_get (payload s) ''server_name''))"
    and "truthy (JNum (js_mul (Signal.timestamp s) (Num 1000)))"
  shows "clock_reads (snd (handleBuildEvent E s r w)) = Suc (clock_reads w)"
  using assms(1,2,3)
  by (simp add: handleBuildEvent_def Let_def split_def obj_get_rest
      signal_time_clock[OF assms(4)] or_time_id_clock)

lemma route_build_completed_clock:
  assumes "distinct_types (signalTypes E)"
    and "signalType s = BUILD_COMPLETED (signalTypes E)"
    and "\<not> truthy (js_or (obj_get (payload s) ''build_id'')
                          (obj_get (payload s) ''server_name''))"
    and "truthy (JNum (js_mul (Signal.timestamp s) (Num 1000)))"
  shows "clock_reads (snd (route E s r w)) = Suc (clock_reads w)"
proof -
  have n: "BUILD_STARTED (signalTypes E) \<noteq> BUILD_COMPLETED (signalTypes E)"
    using assms(1) by (simp add: distinct_types_def all_types_def)
  show ?thesis
    by (simp only: route_build_completed[OF assms(1,2)]
        handleBuildEvent_completed_clock[OF assms(2) n assms(3,4)] at_switch_clock[OF assms(4)])
qed

text \<open>
  C3 as stated fails: the same build-completed signal does not always derive the same
  \<open>operation_id\<close>. A signal that carries neither \<open>build_id\<close> nor \<open>server_name\<close>
  takes the time-based id, and with the clock advancing between the two calls the ids
  differ; the uniqueness-checked store then accepts both inserts and holds two rows.
\<close>

theorem build_completed_without_id_two_rows:
  "fst (route (sample_env ideal_db) build_completed_no_id sample_rinfo empty_world) = Inr ()
   \<and> fst (route (sample_env ideal_db) build_completed_no_id sample_rinfo
            (snd (route (sample_env ideal_db) build_completed_no_id sample_rinfo empty_world)))
        = Inr ()
   \<and> map operation_id
        (operations (store (snd (route (sample_env ideal_db) build_completed_no_id sample_rinfo
           (snd (route (sample_env ideal_db) build_completed_no_id sample_rinfo
                  empty_world))))))
        = [JStr ''build-1700000000000'', JStr ''build-1700000000001'']
   \<and> length
        (operations (store (snd (route (sample_env ideal_db) build_completed_no_id sample_rinfo
           (snd (route (sample_env ideal_db) build_completed_no_id sample_rinfo
                  empty_world))))))
        = 2"
proof -
  let ?E = "sample_env ideal_db"
  let ?s = "build_completed_no_id"
  let ?w1 = "snd (route ?E ?s sample_rinfo empty_world)"
  let ?w2 = "snd (route ?E ?s sample_rinfo ?w1)"
  have d: "distinct_types (signalTypes ?E)"
    by (simp add: sample_types_distinct)
  have g: "getDatabase ?E = ideal_db"
    by (simp add: sample_env_def)
  have t: "signalType ?s = BUILD_COMPLETED (signalTypes ?E)"
    by (simp add: build_completed_no_id_def sample_signal_def sample_types_def)
  have nb: "\<not> truthy (js_or (obj_get (payload ?s) ''build_id'')
                             (obj_get (payload ?s) ''server_name''))"
    by (simp add: build_completed_no_id_def sample_signal_def obj_get_def js_or_def)
  have ts: "truthy (JNum (js_mul (Signal.timestamp ?s) (Num 1000)))"
    by (simp add: build_completed_no_id_def sample_signal_def)
  have k0: "clock_reads (at_switch ?E ?s sample_rinfo empty_world) = 0"
    by (simp add: at_switch_clock[OF ts] empty_world_def)
  have k1: "clock_reads (at_switch ?E ?s sample_rinfo ?w1) = Suc 0"
    by (simp add: at_switch_clock[OF ts] route_build_completed_clock[OF d t nb ts]
        empty_world_def)
  have n0: "numberToString (runtime ?E) 10 (Num (of_int (Date_now ?E 0))) = ''1700000000000''"
    by (simp add: sample_env_def sample_runtime_def nat_to_string.simps digit_char_def)
  have n1: "numberToString (runtime ?E) 10 (Num (of_int (Date_now ?E (Suc 0))))
              = ''1700000000001''"
    by (simp add: sample_env_def sample_runtime_def nat_to_string.simps digit_char_def)
  obtain op1 where a: "fst (route ?E ?s sample_rinfo empty_world) = Inr ()"
      "operation_id op1 = JStr ''build-1700000000000''"
      "operations (store ?w1) =
         (if operation_id op1 \<in> operation_id ` set (operations (store empty_world))
          then operations (store empty_world) else operations (store empty_world) @ [op1])"
    using route_build_completed_store[OF d g t, of sample_rinfo empty_world] nb k0 n0
    by auto
  obtain op2 where b: "fst (route ?E ?s sample_rinfo ?w1) = Inr ()"
      "operation_id op2 = JStr ''build-1700000000001''"
      "operations (store ?w2) =
         (if operation_id op2 \<in> operation_id ` set (operations (store ?w1))
          then operations (store ?w1) else operations (store ?w1) @ [op2])"
    using route_build_completed_store[OF d g t, of sample_rinfo ?w1] nb k1 n1
    by auto
  have s1: "operations (store ?w1) = [op1]"
    using a(3) by (simp add: empty_world_def)
  have s2: "operations (store ?w2) = [op1, op2]"
    using b(3) by (simp add: s1 a(2) b(2))
  show ?thesis
    using a(1) b(1) by (simp add: s2 a(2) b(2))
qed

text \<open>
  C3, amended. Against the store that enforces uniqueness of \<open>operation_id\<close>, routing
  the same build-completed signal twice returns normally both times, each call deriving
  one Operation. When the payload carries a \<open>build_id\<close> or a \<open>server_name\<close> (a
  truthy one, as \<open>||\<close> tests it), both Operations have that value as
  \<open>operation_id\<close>, the second insert is absorbed as a no-op, leaving the operations
  of the store as the first call left them, and if the store held no row of that id
  before the first call, it holds exactly one after the second. In any case, when the
  two Operations have the same \<open>operation_id\<close>, the second call leaves the operations
  of the store unchanged.
\<close>

theorem build_completed_retransmission:
  assumes "distinct_types (signalTypes E)" "getDatabase E = ideal_db"
    and "signalType s = BUILD_COMPLETED (signalTypes E)"
  shows "\<exists>op1 op2.
       operation_calls (call_effects E s r w) = [op1]
     \<and> operation_calls (call_effects E s r (snd (route E s r w))) = [op2]
     \<and> fst (route E s r w) = Inr ()
     \<and> fst (route E s r (snd (route E s r w))) = Inr ()
     \<and> (truthy (js_or (obj_get (payload s) ''build_id'') (obj_get (payload s) ''server_name''))
          \<longrightarrow>
            operation_id op1 = js_or (obj_get (payload s) ''build_id'')
                                     (obj_get (payload s) ''server_name'')
          \<and> operation_id op2 = operation_id op1
          \<and> operations (store (snd (route E s r (snd (route E s r w)))))
              = operations (store (snd (route E s r w)))
          \<and> (operation_id op1 \<notin> operation_id ` set (operations (store w)) \<longrightarrow>
               length (filter (\<lambda>op. operation_id op = operation_id op1)
                         (operations (store (snd (route E s r (snd (route E s r w))))))) = 1))
     \<and> (operation_id op1 = operation_id op2 \<longrightarrow>
          operations (store (snd (route E s r (snd (route E s r w)))))
            = operations (store (snd (route E s r w))))"
proof -
  let ?w1 = "snd (route E s r w)"
  let ?w2 = "snd (route E s r ?w1)"
  let ?bid = "js_or (obj_get (payload s) ''build_id'') (obj_get (payload s) ''server_name'')"
  obtain op1 where a: "operation_calls (call_effects E s r w) = [op1]"
      "fst (route E s r w) = Inr ()"
      "truthy ?bid \<longrightarrow> operation_id op1 = ?bid"
      "operations (store ?w1) =
           (if operation_id op1 \<in> operation_id ` set (operations (store w))
            then operations (store w) else operations (store w) @ [op1])"
    using route_build_completed_store[OF assms, of r w] by blast
  obtain op2 where b: "operation_calls (call_effects E s r ?w1) = [op2]"
      "fst (route E s r ?w1) = Inr ()"
      "truthy ?bid \<longrightarrow> operation_id op2 = ?bid"
      "operations (store ?w2) =
           (if operation_id op2 \<in> operation_id ` set (operations (store ?w1))
            then operations (store ?w1) else operations (store ?w1) @ [op2])"
    using route_build_completed_store[OF assms, of r ?w1] by blast
  have present: "operation_id op1 \<in> operation_id ` set (operations (store ?w1))"
    using a(4) by simp
  have same: "operation_id op1 = operation_id op2
      \<Longrightarrow> operations (store ?w2) = operations (store ?w1)"
    using b(4) present by simp
  have one: "operation_id op1 \<notin> operation_id ` set (operations (store w))
      \<Longrightarrow> length (filter (\<lambda>op. operation_id op = operation_id op1)
                    (operations (store ?w1))) = 1"
  proof -
    assume fresh: "operation_id op1 \<notin> operation_id ` set (operations (store w))"
    then have "\<forall>x \<in> set (operations (store w)). operation_id x \<noteq> operation_id op1"
      by (metis imageI)
    then have "filter (\<lambda>op. operation_id op = operation_id op1) (operations (store w)) = []"
      by (simp add: filter_empty_conv)
    then show ?thesis using a(4) fresh by simp
  qed
  have c5: "truthy ?bid \<longrightarrow>
            operation_id op1 = ?bid
          \<and> operation_id op2 = operation_id op1
          \<and> operations (store ?w2) = operations (store ?w1)
          \<and> (operation_id op1 \<notin> operation_id ` set (operations (store w)) \<longrightarrow>
               length (filter (\<lambda>op. operation_id op = operation_id op1)
                         (operations (store ?w2))) = 1)"
  proof
    assume tb: "truthy ?bid"
    have i1: "operation_id op1 = ?bid" using a(3) tb by blast
    have i2: "operation_id op2 = operation_id op1" using a(3) b(3) tb by simp
    have eq: "operations (store ?w2) = operations (store ?w1)"
      using same i2 by simp
    have cnt: "operation_id op1 \<notin> operation_id ` set (operations (store w)) \<longrightarrow>
               length (filter (\<lambda>op. operation_id op = operation_id op1)
                         (operations (store ?w2))) = 1"
    proof
      assume f: "operation_id op1 \<notin> operation_id ` set (operations (store w))"
      show "length (filter (\<lambda>op. operation_id op = operation_id op1)
                      (operations (store ?w2))) = 1"
        using eq one[OF f] by (simp only:)
    qed
    from i1 i2 eq cnt
    show "operation_id op1 = ?bid
          \<and> operation_id op2 = operation_id op1
          \<and> operations (store ?w2) = operations (store ?w1)
          \<and> (operation_id op1 \<notin> operation_id ` set (operations (store w)) \<longrightarrow>
               length (filter (\<lambda>op. operation_id op = operation_id op1)
                         (operations (store ?w2))) = 1)"
      by blast
  qed
  have c6: "operation_id op1 = operation_id op2 \<longrightarrow>
          operations (store ?w2) = operations (store ?w1)"
    using same by blast
  from a(1) b(1) a(2) b(2) c5 c6 show ?thesis by blast
qed

theorem build_completed_retransmission_witness:
  "distinct_types (signalTypes (sample_env ideal_db))
   \<and> getDatabase (sample_env ideal_db) = ideal_db
   \<and> signalType build_completed_signal = BUILD_COMPLETED (signalTypes (sample_env ideal_db))
   \<and> truthy (js_or (obj_get (payload build_completed_signal) ''build_id'')
                    (obj_get (payload build_completed_signal) ''server_name''))
   \<and> JStr ''b-7'' \<notin> operation_id ` set (operations (store empty_world))
   \<and> map operation_id (operation_calls (call_effects (sample_env ideal_db)
            build_completed_signal sample_rinfo empty_world)) = [JStr ''b-7'']
   \<and> map operation_id (operation_calls (call_effects (sample_env ideal_db)
            build_completed_signal sample_rinfo
            (snd (route (sample_env ideal_db) build_completed_signal sample_rinfo empty_world))))
        = [JStr ''b-7'']
   \<and> fst (route (sample_env ideal_db) build_completed_signal sample_rinfo empty_world) = Inr ()
   \<and> fst (route (sample_env ideal_db) build_completed_signal sample_rinfo
            (snd (route (sample_env ideal_db) build_completed_signal sample_rinfo empty_world)))
        = Inr ()
   \<and> operations (store (snd (route (sample_env ideal_db) build_completed_signal sample_rinfo
        (snd (route (sample_env ideal_db) build_completed_signal sample_rinfo empty_world)))))
      = operations (store (snd (route (sample_env ideal_db) build_completed_signal
                                  sample_rinfo empty_world)))
   \<and> length (filter (\<lambda>op. operation_id op = JStr ''b-7'')
        (operations (store (snd (route (sample_env ideal_db) build_completed_signal
           sample_rinfo
           (snd (route (sample_env ideal_db) build_completed_signal sample_rinfo
                  empty_world))))))) = 1"
proof -
  let ?E = "sample_env ideal_db"
  let ?w1 = "snd (route ?E build_completed_signal sample_rinfo empty_world)"
  let ?w2 = "snd (route ?E build_completed_signal sample_rinfo ?w1)"
  have d: "distinct_types (signalTypes ?E)"
    by (simp add: sample_types_distinct)
  have g: "getDatabase ?E = ideal_db"
    by (simp add: sample_env_def)
  have t: "signalType build_completed_signal = BUILD_COMPLETED (signalTypes ?E)"
    by (simp add: build_completed_signal_def sample_signal_def sample_types_def)
  have b: "js_or (obj_get (payload build_completed_signal) ''build_id'')
                 (obj_get (payload build_completed_signal) ''server_name'') = JStr ''b-7''"
    by (simp add: build_completed_signal_def sample_signal_def obj_get_def js_or_def)
  have tb: "truthy (js_or (obj_get (payload build_completed_signal) ''build_id'')
                          (obj_get (payload build_completed_signal) ''server_name''))"
    by (simp add: b)
  have fresh: "JStr ''b-7'' \<notin> operation_id ` set (operations (store empty_world))"
    by (simp add: empty_world_def)
  obtain op1 op2 where o:
      "operation_calls (call_effects ?E build_completed_signal sample_rinfo empty_world) = [op1]"
      "operation_calls (call_effects ?E build_completed_signal sample_rinfo ?w1) = [op2]"
      "fst (route ?E build_completed_signal sample_rinfo empty_world) = Inr ()"
      "fst (route ?E build_completed_signal sample_rinfo ?w1) = Inr ()"
    and imp: "truthy (js_or (obj_get (payload build_completed_signal) ''build_id'')
                            (obj_get (payload build_completed_signal) ''server_name''))
          \<longrightarrow>
            operation_id op1 = js_or (obj_get (payload build_completed_signal) ''build_id'')
                                     (obj_get (payload build_completed_signal) ''server_name'')
          \<and> operation_id op2 = operation_id op1
          \<and> operations (store ?w2) = operations (store ?w1)
          \<and> (operation_id op1 \<notin> operation_id ` set (operations (store empty_world)) \<longrightarrow>
               length (filter (\<lambda>op. operation_id op = operation_id op1)
                         (operations (store ?w2))) = 1)"
    using build_completed_retransmission[OF d g t, of sample_rinfo empty_world] by blast
  from imp tb have o5': "operation_id op1
        = js_or (obj_get (payload build_completed_signal) ''build_id'')
                (obj_get (payload build_completed_signal) ''server_name'')"
    and o6: "operation_id op2 = operation_id op1"
    and o7: "operations (store ?w2) = operations (store ?w1)"
    and o8: "operation_id op1 \<notin> operation_id ` set (operations (store empty_world)) \<longrightarrow>
         length (filter (\<lambda>op. operation_id op = operation_id op1)
                   (operations (store ?w2))) = 1"
    by blast+
  have o5: "operation_id op1 = JStr ''b-7''"
    using o5' by (simp only: b)
  have cnt: "length (filter (\<lambda>op. operation_id op = JStr ''b-7'')
                      (operations (store ?w2))) = 1"
    using o8 fresh by (simp add: o5)
  from d g t tb fresh o(3,4) o7 cnt show ?thesis
    by (simp add: o(1,2) o5 o6)
qed

section \<open>The audit records of one call\<close>

lemma family_records_iff:
  "family_records ks w res \<longleftrightarrow>
     (\<exists>ext. effects (snd res) = effects w @ ext
         \<and> map event_type (attention_calls ext) = ks
         \<and> filter (\<lambda>ev. event_type ev = ''signal'') (attention_calls ext) = [])"
proof
  assume a: "family_records ks w res"
  let ?ext = "drop (length (effects w)) (effects (snd res))"
  have "effects (snd res) = effects w @ ?ext"
    using a append_take_drop_id[of "length (effects w)" "effects (snd res)"]
    by (simp add: family_records_def Let_def)
  moreover have "map event_type (attention_calls ?ext) = ks"
    "filter (\<lambda>ev. event_type ev = ''signal'') (attention_calls ?ext) = []"
    using a by (simp_all add: family_records_def Let_def)
  ultimately show "\<exists>ext. effects (snd res) = effects w @ ext
         \<and> map event_type (attention_calls ext) = ks
         \<and> filter (\<lambda>ev. event_type ev = ''signal'') (attention_calls ext) = []"
    by blast
next
  assume "\<exists>ext. effects (snd res) = effects w @ ext
         \<and> map event_type (attention_calls ext) = ks
         \<and> filter (\<lambda>ev. event_type ev = ''signal'') (attention_calls ext) = []"
  then show "family_records ks w res"
    by (auto simp: family_records_def Let_def)
qed

lemma handleHeartbeat_records [simp]:
  "family_records [] w (handleHeartbeat E s r w)"
  by (simp add: family_records_iff handleHeartbeat_def Let_def split_def split: sum.splits)

lemma handleDockRequest_records [simp]:
  "family_records [] w (handleDockRequest E s r w)"
  by (simp add: family_records_iff handleDockRequest_def now_def Let_def split_def split: sum.splits)

lemma handleShutdown_records [simp]:
  "family_records [] w (handleShutdown E s r w)"
  by (simp add: family_records_iff handleShutdown_def Let_def split_def split: sum.splits)

lemma handleFileEvent_records [simp]:
  "family_records [''file''] w (handleFileEvent E s r w)"
  by (simp add: family_records_iff handleFileEvent_def Let_def split_def split: sum.splits)

lemma handleVerificationEvent_records [simp]:
  "family_records [] w (handleVerificationEvent E s r w)"
  by (simp add: family_records_iff handleVerificationEvent_def Let_def split_def split: sum.splits)

lemma handleValidationEvent_records [simp]:
  "family_records [] w (handleValidationEvent E s r w)"
  by (simp add: family_records_iff handleValidationEvent_def Let_def split_def split: sum.splits)

lemma handleCoordinationEvent_records [simp]:
  "family_records [''workflow''] w (handleCoordinationEvent E s r w)"
  by (simp add: family_records_iff handleCoordinationEvent_def Let_def split_def split: sum.splits)

lemma handleError_records [simp]:
  "family_records [] w (handleError E s r w)"
  by (simp add: family_records_iff handleError_def Let_def split_def split: sum.splits)

lemma handleUnknownSignal_records [simp]:
  "family_records [] w (handleUnknownSignal E s r w)"
  by (simp add: family_records_iff handleUnknownSignal_def Let_def split_def split: sum.splits)

lemma handleAstrosentryEvent_records [simp]:
  "family_records [''operation''] w (handleAstrosentryEvent E s r w)"
  by (cases "truthy (obj_get (payload s) ''outcome'')";
      cases "obj_get (payload s) ''outcome'' = JStr ''failure''")
     (simp_all add: family_records_iff handleAstrosentryEvent_def Let_def split_def
        split del: if_split split: sum.splits)

lemma handleSearchEvent_records_started [simp]:
  "signalType s = SEARCH_STARTED (signalTypes E) \<Longrightarrow> family_records [''query''] w (handleSearchEvent E s r w)"
  by (simp add: family_records_iff handleSearchEvent_def Let_def split_def split: sum.splits)

lemma handleSearchEvent_records_other [simp]:
  "signalType s \<noteq> SEARCH_STARTED (signalTypes E) \<Longrightarrow> family_records [] w (handleSearchEvent E s r w)"
  by (simp add: family_records_iff handleSearchEvent_def Let_def split_def split: sum.splits)

lemma handleBuildEvent_records_started [simp]:
  "signalType s = BUILD_STARTED (signalTypes E) \<Longrightarrow> family_records [''operation''] w (handleBuildEvent E s r w)"
  by (simp add: family_records_iff handleBuildEvent_def Let_def split_def split: sum.splits)

lemma handleBuildEvent_records_other [simp]:
  "signalType s \<noteq> BUILD_STARTED (signalTypes E) \<Longrightarrow> family_records [] w (handleBuildEvent E s r w)"
  by (simp add: family_records_iff handleBuildEvent_def Let_def split_def split: sum.splits)

lemma family_records_some:
  "family_records ks w res \<Longrightarrow> \<exists>ks. family_records ks w res"
  by blast

lemma family_records_if:
  "(c \<Longrightarrow> \<exists>ks. family_records ks w a) \<Longrightarrow> (\<not> c \<Longrightarrow> \<exists>ks. family_records ks w b)
    \<Longrightarrow> \<exists>ks. family_records ks w (if c then a else b)"
  by simp

lemma route_family_records_some: "\<exists>ks. family_records ks (at_switch E s r w) (route E s r w)"
proof -
  have srch: "\<exists>ks. family_records ks (at_switch E s r w)
                     (handleSearchEvent E s r (at_switch E s r w))"
    by (cases "signalType s = SEARCH_STARTED (signalTypes E)")
       (blast intro: handleSearchEvent_records_started handleSearchEvent_records_other)+
  have bld: "\<exists>ks. family_records ks (at_switch E s r w)
                    (handleBuildEvent E s r (at_switch E s r w))"
    by (cases "signalType s = BUILD_STARTED (signalTypes E)")
       (blast intro: handleBuildEvent_records_started handleBuildEvent_records_other)+
  note others = family_records_some[OF handleHeartbeat_records]
    family_records_some[OF handleDockRequest_records]
    family_records_some[OF handleShutdown_records]
    family_records_some[OF handleFileEvent_records]
    family_records_some[OF handleVerificationEvent_records]
    family_records_some[OF handleValidationEvent_records]
    family_records_some[OF handleCoordinationEvent_records]
    family_records_some[OF handleAstrosentryEvent_records]
    family_records_some[OF handleError_records]
    family_records_some[OF handleUnknownSignal_records]
  show ?thesis
    unfolding route_at_switch Let_def
    by (intro family_records_if srch bld others)
qed


















text \<open>
  C7. For every signal, \<open>route\<close> first writes its line on the console and then calls
  \<open>insertAttentionEvent\<close> with a record of event type \<open>signal\<close> whose target is the
  name of the signal type; every other effect of the call (the handler's own audit
  record, an Operation, a notification, the dock reply) comes after it, and no later
  \<open>insertAttentionEvent\<close> call of this \<open>route\<close> has event type \<open>signal\<close>.
\<close>

theorem universal_record_first:
  "\<exists>line ev rest.
       call_effects E s r w = ConsoleError line # InsertAttentionEvent ev # rest
     \<and> event_type ev = ''signal''
     \<and> target ev = JStr (getSignalName E (signalType s))
     \<and> filter (\<lambda>ev. event_type ev = ''signal'') (attention_calls rest) = []"
proof -
  obtain k ext where
    e: "effects (snd (route E s r w)) = effects (at_switch E s r w) @ ext"
    and f: "filter (\<lambda>ev. event_type ev = ''signal'') (attention_calls ext) = []"
    using route_family_records_some[of E s r w] unfolding family_records_iff by blast
  obtain line ev rest where
    c: "call_effects E s r w = ConsoleError line # InsertAttentionEvent ev # rest @ ext"
    and p: "event_type ev = ''signal''" "target ev = JStr (getSignalName E (signalType s))"
      "attention_calls rest = []"
    using call_effects_split[OF refl e] by blast
  have "filter (\<lambda>ev. event_type ev = ''signal'') (attention_calls (rest @ ext)) = []"
    using p(3) f by simp
  with c p(1,2) show ?thesis by blast
qed




section \<open>A store failure inside a family handler\<close>

lemma route_file_modified:
  assumes "distinct_types (signalTypes E)" "signalType s = FILE_MODIFIED (signalTypes E)"
  shows "route E s r w = handleFileEvent E s r (at_switch E s r w)"
  using assms
  by (simp add: route_at_switch distinct_types_def all_types_def Let_def
      eq_commute[of "FILE_MODIFIED (signalTypes E)"])

lemma handleFileEvent_rejected:
  assumes "insertAttentionEvent (getDatabase E) = (\<lambda>event st. Inl err)"
  shows "fst (handleFileEvent E s r w) = Inl err
     \<and> (\<exists>ev. effects (snd (handleFileEvent E s r w)) = effects w @ [InsertAttentionEvent ev])"
  using assms
  by (simp add: handleFileEvent_def db_insertAttentionEvent_def Let_def split_def)

lemma handleFileEvent_accepted:
  assumes "insertAttentionEvent (getDatabase E) = ideal_insertAttentionEvent"
  shows "fst (handleFileEvent E s r w) = Inr ()
     \<and> (\<exists>ev data. effects (snd (handleFileEvent E s r w))
                     = effects w @ [InsertAttentionEvent ev, Emit ''file_event'' data])"
  using assms
  by (simp add: handleFileEvent_def db_insertAttentionEvent_def ideal_insertAttentionEvent_def
      Let_def split_def)

text \<open>
  C1 at a failing input. While the store rejects writes to the audit log, routing a
  file-modified signal throws the store's error out of \<open>route\<close>, and the
  \<open>file_event\<close> notification of that call is never emitted; with the store accepting
  writes, the same call returns and emits it. The failure of the universal record, in
  \<open>logAttentionEvent\<close>, is caught; the same failure in \<open>handleFileEvent\<close> is not.
\<close>

theorem file_event_store_failure_escapes:
  "fst (route (sample_env rejecting_db) file_modified_signal sample_rinfo empty_world)
     = Inl StorageError
   \<and> emitted ''file_event'' (call_effects (sample_env rejecting_db) file_modified_signal
                                sample_rinfo empty_world) = []
   \<and> fst (route (sample_env ideal_db) file_modified_signal sample_rinfo empty_world) = Inr ()
   \<and> length (emitted ''file_event'' (call_effects (sample_env ideal_db) file_modified_signal
                                        sample_rinfo empty_world)) = 1"
proof -
  let ?R = "sample_env rejecting_db" and ?I = "sample_env ideal_db"
  have d: "distinct_types (signalTypes ?R)" "distinct_types (signalTypes ?I)"
    by (simp_all add: sample_types_distinct)
  have t: "signalType file_modified_signal = FILE_MODIFIED (signalTypes ?R)"
    "signalType file_modified_signal = FILE_MODIFIED (signalTypes ?I)"
    by (simp_all add: file_modified_signal_def sample_signal_def sample_types_def)
  have rj: "insertAttentionEvent (getDatabase ?R) = (\<lambda>event st. Inl StorageError)"
    by (simp add: sample_env_def rejecting_db_def)
  have ac: "insertAttentionEvent (getDatabase ?I) = ideal_insertAttentionEvent"
    by (simp add: sample_env_def ideal_db_def)
  note rR = route_file_modified[OF d(1) t(1), of sample_rinfo empty_world]
  note rI = route_file_modified[OF d(2) t(2), of sample_rinfo empty_world]
  note hR = handleFileEvent_rejected[OF rj, of file_modified_signal sample_rinfo
              "at_switch ?R file_modified_signal sample_rinfo empty_world"]
  note hI = handleFileEvent_accepted[OF ac, of file_modified_signal sample_rinfo
              "at_switch ?I file_modified_signal sample_rinfo empty_world"]
  obtain ev1 where e1: "effects (snd (handleFileEvent ?R file_modified_signal sample_rinfo
        (at_switch ?R file_modified_signal sample_rinfo empty_world)))
      = effects (at_switch ?R file_modified_signal sample_rinfo empty_world)
          @ [InsertAttentionEvent ev1]"
    using hR by blast
  obtain ev2 data where e2: "effects (snd (handleFileEvent ?I file_modified_signal sample_rinfo
        (at_switch ?I file_modified_signal sample_rinfo empty_world)))
      = effects (at_switch ?I file_modified_signal sample_rinfo empty_world)
          @ [InsertAttentionEvent ev2, Emit ''file_event'' data]"
    using hI by blast
  obtain l1 u1 rest1 where c1: "call_effects ?R file_modified_signal sample_rinfo empty_world
      = ConsoleError l1 # InsertAttentionEvent u1 # rest1 @ [InsertAttentionEvent ev1]"
    and p1: "\<forall>n. emitted n rest1 = []"
    using call_effects_split[OF rR e1] by blast
  obtain l2 u2 rest2 where c2: "call_effects ?I file_modified_signal sample_rinfo empty_world
      = ConsoleError l2 # InsertAttentionEvent u2 # rest2
          @ [InsertAttentionEvent ev2, Emit ''file_event'' data]"
    and p2: "\<forall>n. emitted n rest2 = []"
    using call_effects_split[OF rI e2] by blast
  have "fst (route ?R file_modified_signal sample_rinfo empty_world) = Inl StorageError"
    using rR hR by simp
  moreover have "emitted ''file_event'' (call_effects ?R file_modified_signal
                                sample_rinfo empty_world) = []"
    using c1 p1 by simp
  moreover have "fst (route ?I file_modified_signal sample_rinfo empty_world) = Inr ()"
    using rI hI by simp
  moreover have "length (emitted ''file_event'' (call_effects ?I file_modified_signal
                                        sample_rinfo empty_world)) = 1"
    using c2 p2 by simp
  ultimately show ?thesis by blast
qed

end
